theory Spec2Isabelle
  imports Complex_Main "HOL-Library.Multiset" "HOL-Library.Char_ord" "HOL-Library.List_Lexorder"
    "HOL-Library.Product_Lexorder"
begin

section \<open>Bike-share data curation: a shallow embedding\<close>

text \<open>
  The development follows the Python sources under \<open>SourceCode/DataCuration\<close>.
  A data frame is a list of rows, a row is a record, a missing cell (NaN, NaT, None) is
  \<open>None\<close>. Python exceptions are values of the type \<open>error\<close>; a function that may
  raise returns \<open>error + 'a\<close>. Floating-point cells are read as real numbers; the places
  where IEEE arithmetic produces NaN or an infinity (a division by zero) are written out.
\<close>

datatype error =
    RecursionError
  | UnboundLocalError
  | KeyError
  | ValueError

subsection \<open>data\_acquisition.py: reverse geocoding of the stations\<close>

text \<open>
  \<open>get_zip_code\<close> queries an external search engine and may raise. The outcome of the
  call made for the station at position \<open>i\<close> on attempt \<open>retry_i\<close> with coordinates
  \<open>(lat, lon)\<close> is given by a parameter \<open>get_zip_code i retry_i lat lon\<close>:
  \<open>None\<close> when the call raises, \<open>Some z\<close> when it returns \<open>z\<close> (a ZIP code, or NaN when
  the search finds nothing). The table is given by its columns 1 and 2, \<open>lat\<close> and \<open>lon\<close>.

  The inner \<open>for retry_i in range(retries)\<close> loop: the loop variable stays bound to
  the last value it took, and stays as it was when the range is empty.
\<close>

fun retry_loop :: "(int \<Rightarrow> 'z option) \<Rightarrow> int list \<Rightarrow> int option \<Rightarrow> int option \<times> 'z option" where
  "retry_loop attempt [] retry_i = (retry_i, None)"
| "retry_loop attempt (k # ks) retry_i =
     (case attempt k of
        Some z \<Rightarrow> (Some k, Some z)
      | None \<Rightarrow> retry_loop attempt ks (Some k))"

text \<open>
  The outer loop over \<open>enumerate(df_stations.values)\<close>. The state is the dictionary
  \<open>zip_dict\<close> and the function-scoped variable \<open>retry_i\<close>. Reading \<open>retry_i\<close>
  while it is unbound raises \<open>UnboundLocalError\<close>.
\<close>

fun station_loop ::
  "(nat \<Rightarrow> int \<Rightarrow> real option \<Rightarrow> real option \<Rightarrow> 'z option) \<Rightarrow> int \<Rightarrow>
   (nat \<times> real option \<times> real option) list \<Rightarrow>
   (nat \<rightharpoonup> 'z) \<Rightarrow> int option \<Rightarrow> error + (nat \<rightharpoonup> 'z)" where
  "station_loop get_zip_code retries [] zip_dict retry_i = Inr zip_dict"
| "station_loop get_zip_code retries ((i, lat, lon) # rest) zip_dict retry_i =
     (case retry_loop (\<lambda>k. get_zip_code i k lat lon) [0 .. retries - 1] retry_i of
        (retry_i', found) \<Rightarrow>
          (let zip_dict' = (case found of Some z \<Rightarrow> zip_dict(i \<mapsto> z) | None \<Rightarrow> zip_dict)
           in case retry_i' of
                None \<Rightarrow> Inl UnboundLocalError
              | Some r \<Rightarrow>
                  if r - 1 = retries then Inl RecursionError
                  else station_loop get_zip_code retries rest zip_dict' retry_i'))"

definition get_zip_code_by_coordenates ::
  "(nat \<Rightarrow> int \<Rightarrow> real option \<Rightarrow> real option \<Rightarrow> 'z option) \<Rightarrow>
   (real option \<times> real option) list \<Rightarrow> int \<Rightarrow> error + (nat \<rightharpoonup> 'z)" where
  "get_zip_code_by_coordenates get_zip_code df_stations retries =
     station_loop get_zip_code retries (zip [0 ..< length df_stations] df_stations) Map.empty None"

text \<open>A lookup that raises on every attempt.\<close>

definition always_raises :: "nat \<Rightarrow> int \<Rightarrow> real option \<Rightarrow> real option \<Rightarrow> string option option" where
  "always_raises i k la lo = None"

subsection \<open>Timestamps\<close>

text \<open>
  pandas holds a timestamp as a count of nanoseconds since 1970-01-01T00:00:00; comparison
  and subtraction work on that count. A text cell handed to \<open>pd.to_datetime\<close> either
  denotes a timestamp, is missing, or cannot be parsed.
\<close>

type_synonym timestamp = int

datatype time_text = Text timestamp | Blank | Garbage

text \<open>\<open>pd.to_datetime(col, format="mixed")\<close>, cell by cell; it raises on an unparseable cell.\<close>

definition parse_time :: "time_text \<Rightarrow> timestamp option" where
  "parse_time c = (case c of Text t \<Rightarrow> Some t | Blank \<Rightarrow> None | Garbage \<Rightarrow> None)"

definition unparseable :: "time_text \<Rightarrow> bool" where
  "unparseable c = (c = Garbage)"

definition ns_per_day :: int where
  "ns_per_day = 86400 * 1000000000"

definition total_seconds :: "int \<Rightarrow> real" where
  "total_seconds d = real_of_int d / 1000000000"

text \<open>
  The calendar accessors \<open>.dt.hour\<close>, \<open>.dt.dayofweek\<close> (Monday is 0; day 0 was a Thursday),
  \<open>.dt.year\<close> and \<open>.dt.month\<close> (proleptic Gregorian calendar, from the day count).
\<close>

definition dt_hour :: "timestamp \<Rightarrow> int" where
  "dt_hour t = (t mod ns_per_day) div (3600 * 1000000000)"

definition dt_dayofweek :: "timestamp \<Rightarrow> int" where
  "dt_dayofweek t = (t div ns_per_day + 3) mod 7"

text \<open>
  The day count is shifted to an era of 400 years starting on a 1 March; \<open>doy\<close> is the
  day of the year counted from 1 March, and the month is read off the month lengths.
\<close>

definition month_from_march :: "int \<Rightarrow> int" where
  "month_from_march doy =
     (if doy < 31 then 3 else if doy < 61 then 4 else if doy < 92 then 5
      else if doy < 122 then 6 else if doy < 153 then 7 else if doy < 184 then 8
      else if doy < 214 then 9 else if doy < 245 then 10 else if doy < 275 then 11
      else if doy < 306 then 12 else if doy < 337 then 1 else 2)"

definition civil_from_days :: "int \<Rightarrow> int \<times> int" where
  "civil_from_days d =
     (let z = d + 719468;
          era = z div 146097;
          doe = z - era * 146097;
          yoe = (doe - doe div 1460 + doe div 36524 - doe div 146096) div 365;
          doy = doe - (365 * yoe + yoe div 4 - yoe div 100);
          m = month_from_march doy;
          y = yoe + era * 400
      in (if m \<le> 2 then y + 1 else y, m))"

definition dt_year :: "timestamp \<Rightarrow> int" where
  "dt_year t = fst (civil_from_days (t div ns_per_day))"

definition dt_month :: "timestamp \<Rightarrow> int" where
  "dt_month t = snd (civil_from_days (t div ns_per_day))"

text \<open>
  \<open>strftime('%Y-%m-%dT%H:%M:%S.%f')\<close> writes microseconds: the text denotes the timestamp
  with its last three digits cut.
\<close>

definition strftime :: "timestamp \<Rightarrow> time_text" where
  "strftime t = Text (t div 1000 * 1000)"

subsection \<open>Tables\<close>

text \<open>
  The columns every trip table has, with the type of the two time columns left open
  (text before \<open>pd.to_datetime\<close>, a parsed timestamp or NaT after it).
\<close>

record 't trip_core =
  start_time :: 't
  end_time :: 't
  member_type :: "string option"
  duration :: "real option"

text \<open>
  \<open>trip_columns\<close> of the two trip generators. The Capital table has no
  \<open>plan_duration\<close> and no \<open>trip_route_category\<close>; the concatenation with the Metro table
  gives it both, missing. A bike id is held in its string form once \<open>astype(str)\<close> ran.
\<close>

record 't trip_row = "'t trip_core" +
  trip_id :: "string option"
  start_station_id :: "int option"
  end_station_id :: "int option"
  bike_id :: "string option"
  plan_duration :: "real option"
  trip_route_category :: "string option"

text \<open>A row of a homogenized operator table (\<open>df_metro\<close>, \<open>df_capital\<close>).\<close>

record 't raw_trip = "'t trip_row" +
  start_lat :: "real option"
  start_lon :: "real option"
  start_station_name :: "string option"
  end_lat :: "real option"
  end_lon :: "real option"
  end_station_name :: "string option"
  bike_type :: "string option"

text \<open>The stations registry and the bikes registry.\<close>

record ('u, 'z) station =
  station_uuid :: 'u
  original_station_id :: int
  latitude :: "real option"
  longitude :: "real option"
  station_name :: "string option"
  city :: string
  zip_code :: 'z

record 'u bike =
  bike_uuid :: 'u
  original_bike_id :: string
  bike_type_of :: "string option"

text \<open>
  The columns of a curated monthly trips file that the feature engine reads
  (\<open>trip_used_columns\<close>); the file's other columns are dropped on entry.
\<close>

record ('u, 't) trip = "'t trip_core" +
  trip_uuid :: 'u
  start_station_uuid :: "'u option"
  end_station_uuid :: "'u option"
  bike_ref :: "'u option"

text \<open>
  A row of the features table: the trip, the station rows merged in at both ends (the
  columns suffixed \<open>_start\<close> and \<open>_end\<close>) and the derived columns.
\<close>

record ('u, 'z) feature = "('u, timestamp option) trip" +
  station_start :: "('u, 'z) station"
  station_end :: "('u, 'z) station"
  trip_duration_category :: nat
  hour_of_day :: "int option"
  trip_hour_category :: "int option"
  day_of_week :: "int option"
  is_weekend :: bool
  month :: "int option"
  season :: "string option"
  distance_km :: "real option"
  average_speed_kmh :: "real option"
  trip_distance_category :: nat

text \<open>\<open>drop_duplicates()\<close> keeps the first of equal rows, in order.\<close>

definition drop_duplicates :: "'a list \<Rightarrow> 'a list" where
  "drop_duplicates xs = rev (remdups (rev xs))"

text \<open>
  The surrogate ids: \<open>random.seed(seed)\<close> followed by one \<open>random.getrandbits(128)\<close> per
  row. The generator is a parameter: \<open>getrandbits seed i\<close> is draw number \<open>i\<close> after
  seeding with \<open>seed\<close>.
\<close>

definition uuids :: "(nat \<Rightarrow> nat \<Rightarrow> 'u) \<Rightarrow> nat \<Rightarrow> nat \<Rightarrow> 'u list" where
  "uuids getrandbits seed n = map (getrandbits seed) [0 ..< n]"

subsection \<open>feature\_engineering.py\<close>

definition month_to_season :: "(int \<times> string) list" where
  "month_to_season =
     [(1, ''Winter''), (2, ''Winter''), (3, ''Spring''), (4, ''Spring''),
      (5, ''Spring''), (6, ''Summer''), (7, ''Summer''), (8, ''Summer''),
      (9, ''Autumn''), (10, ''Autumn''), (11, ''Autumn''), (12, ''Winter'')]"

definition radians :: "real \<Rightarrow> real" where
  "radians x = x * pi / 180"

text \<open>
  \<open>haversine_vectorized\<close> for one row. \<open>np.sqrt\<close> of a negative number and
  \<open>np.arcsin\<close> of a number above 1 are NaN; a missing coordinate makes everything NaN.
\<close>

definition haversine :: "real \<Rightarrow> real \<Rightarrow> real \<Rightarrow> real \<Rightarrow> real option" where
  "haversine latitude_start longitude_start latitude_end longitude_end =
     (let R = 6371;
          lat_start_rad = radians latitude_start;
          lon_start_rad = radians longitude_start;
          lat_end_rad = radians latitude_end;
          lon_end_rad = radians longitude_end;
          dlat = lat_end_rad - lat_start_rad;
          dlon = lon_end_rad - lon_start_rad;
          a = (sin (dlat / 2))\<^sup>2 + cos lat_start_rad * cos lat_end_rad * (sin (dlon / 2))\<^sup>2
      in if a < 0 \<or> 1 < a then None else Some (R * (2 * arcsin (sqrt a))))"

definition haversine_vectorized :: "('u, 'z) station \<Rightarrow> ('u, 'z) station \<Rightarrow> real option" where
  "haversine_vectorized s e =
     (case (latitude s, longitude s, latitude e, longitude e) of
        (Some la, Some lo, Some la', Some lo') \<Rightarrow> haversine la lo la' lo'
      | _ \<Rightarrow> None)"

text \<open>\<open>(end_time - start_time).dt.total_seconds()\<close>; NaT on either side gives NaN.\<close>

definition duration_seconds :: "timestamp option \<Rightarrow> timestamp option \<Rightarrow> real option" where
  "duration_seconds s e =
     (case (s, e) of (Some a, Some b) \<Rightarrow> Some (total_seconds (b - a)) | _ \<Rightarrow> None)"

text \<open>
  The two category columns: set to 0, then to 1 and to 2 where the masks hold; a mask is
  false on NaN.
\<close>

definition category :: "real \<Rightarrow> real \<Rightarrow> real option \<Rightarrow> nat" where
  "category lo hi x =
     (let c = 0;
          c = (if (case x of None \<Rightarrow> False | Some v \<Rightarrow> lo \<le> v \<and> v < hi) then 1 else c);
          c = (if (case x of None \<Rightarrow> False | Some v \<Rightarrow> hi \<le> v) then 2 else c)
      in c)"

text \<open>
  \<open>distance / duration * 3600\<close>. The distance is never negative, so a zero duration
  gives \<open>+inf\<close> or NaN; both are \<open>None\<close> here, and both fail every \<open>\<le>\<close> test.
\<close>

definition speed_kmh :: "real option \<Rightarrow> real option \<Rightarrow> real option" where
  "speed_kmh distance dur =
     (case (distance, dur) of
        (Some d, Some t) \<Rightarrow> if t = 0 then None else Some (d / t * 3600)
      | _ \<Rightarrow> None)"

definition speed_limit_condition :: "real option \<Rightarrow> bool" where
  "speed_limit_condition v = (case v of None \<Rightarrow> False | Some s \<Rightarrow> s \<le> 50)"

text \<open>The two inner merges with the stations table, on the start and on the end station.\<close>

definition merge_stations ::
  "('u, time_text) trip list \<Rightarrow> ('u, 'z) station list \<Rightarrow>
   (('u, time_text) trip \<times> ('u, 'z) station \<times> ('u, 'z) station) list" where
  "merge_stations df_trip_month df_stations =
     [(t, s, e).
        (t, s) \<leftarrow> [(t, s). t \<leftarrow> df_trip_month, s \<leftarrow> df_stations,
                     start_station_uuid t = Some (station_uuid s)],
        e \<leftarrow> df_stations, end_station_uuid t = Some (station_uuid e)]"

text \<open>All columns derived for one merged row, up to the average speed.\<close>

definition derive ::
  "('u, time_text) trip \<times> ('u, 'z) station \<times> ('u, 'z) station \<Rightarrow> ('u, 'z) feature" where
  "derive row =
     (case row of (t, s, e) \<Rightarrow>
        let start = parse_time (start_time t);
            stop = parse_time (end_time t);
            dur = duration_seconds start stop;
            hour = map_option dt_hour start;
            dow = map_option dt_dayofweek start;
            mon = map_option dt_month start;
            distance = haversine_vectorized s e
        in \<lparr> start_time = start, end_time = stop, member_type = member_type t,
             duration = dur, trip_uuid = trip_uuid t,
             start_station_uuid = start_station_uuid t,
             end_station_uuid = end_station_uuid t, bike_ref = bike_ref t,
             station_start = s, station_end = e,
             trip_duration_category = category 300 600 dur,
             hour_of_day = hour,
             trip_hour_category = map_option (\<lambda>h. h div 4) hour,
             day_of_week = dow,
             is_weekend = (case dow of None \<Rightarrow> False | Some d \<Rightarrow> 5 \<le> d),
             month = mon,
             season = (case mon of None \<Rightarrow> None | Some m \<Rightarrow> map_of month_to_season m),
             distance_km = distance,
             average_speed_kmh = speed_kmh distance dur,
             trip_distance_category = 0 \<rparr>)"

definition add_distance_category :: "('u, 'z) feature \<Rightarrow> ('u, 'z) feature" where
  "add_distance_category r = r \<lparr> trip_distance_category := category 2 4 (distance_km r) \<rparr>"

definition generate_trips_feature_engineering ::
  "('u, time_text) trip list \<Rightarrow> ('u, 'z) station list \<Rightarrow> error + ('u, 'z) feature list" where
  "generate_trips_feature_engineering df_trip_month df_stations =
     (let merged = merge_stations df_trip_month df_stations
      in if list_ex (\<lambda>(t, s, e). unparseable (start_time t) \<or> unparseable (end_time t)) merged
         then Inl ValueError
         else Inr (map add_distance_category
                    (filter (\<lambda>r. speed_limit_condition (average_speed_kmh r))
                       (map derive merged))))"

subsection \<open>data\_cleaning\_homogenization.py: trips\<close>

text \<open>\<open>astype(str)\<close> on a bike id: a missing cell becomes the string \<open>nan\<close>.\<close>

definition str_of :: "string option \<Rightarrow> string" where
  "str_of c = (case c of None \<Rightarrow> ''nan'' | Some v \<Rightarrow> v)"

definition astype_str :: "string option \<Rightarrow> string option" where
  "astype_str c = Some (str_of c)"

text \<open>\<open>Series.isin\<close>: a missing cell is in no list of present values.\<close>

definition isin :: "'a option \<Rightarrow> 'a list \<Rightarrow> bool" where
  "isin c xs = (case c of None \<Rightarrow> False | Some v \<Rightarrow> v \<in> set xs)"

text \<open>\<open>start_time < end_time\<close> on parsed columns: false when either side is NaT.\<close>

definition start_quality_condition :: "timestamp option \<Rightarrow> timestamp option \<Rightarrow> bool" where
  "start_quality_condition s e =
     (case (s, e) of (Some a, Some b) \<Rightarrow> a < b | _ \<Rightarrow> False)"

definition trackable ::
  "('u, 'z) station list \<Rightarrow> 'u bike list \<Rightarrow> time_text raw_trip \<Rightarrow> bool" where
  "trackable df_stations df_bikes r =
     (isin (start_station_id r) (map original_station_id df_stations) \<and>
      isin (end_station_id r) (map original_station_id df_stations) \<and>
      isin (bike_id r) (map original_bike_id df_bikes))"

definition metro_trip_columns :: "time_text raw_trip \<Rightarrow> time_text trip_row" where
  "metro_trip_columns r =
     \<lparr> start_time = start_time r, end_time = end_time r, member_type = member_type r,
       duration = duration r, trip_id = trip_id r,
       start_station_id = start_station_id r, end_station_id = end_station_id r,
       bike_id = bike_id r, plan_duration = plan_duration r,
       trip_route_category = trip_route_category r \<rparr>"

definition capital_trip_columns :: "time_text raw_trip \<Rightarrow> time_text trip_row" where
  "capital_trip_columns r =
     \<lparr> start_time = start_time r, end_time = end_time r, member_type = member_type r,
       duration = duration r, trip_id = trip_id r,
       start_station_id = start_station_id r, end_station_id = end_station_id r,
       bike_id = bike_id r, plan_duration = None, trip_route_category = None \<rparr>"

definition minutes_to_seconds :: "time_text trip_row \<Rightarrow> time_text trip_row" where
  "minutes_to_seconds r =
     r \<lparr> duration := map_option (\<lambda>d. d * 60) (duration r),
         plan_duration := map_option (\<lambda>d. d * 60) (plan_duration r) \<rparr>"

definition parse_times :: "time_text trip_row \<Rightarrow> timestamp option trip_row" where
  "parse_times r =
     \<lparr> start_time = parse_time (start_time r), end_time = parse_time (end_time r),
       member_type = member_type r, duration = duration r, trip_id = trip_id r,
       start_station_id = start_station_id r, end_station_id = end_station_id r,
       bike_id = bike_id r, plan_duration = plan_duration r,
       trip_route_category = trip_route_category r \<rparr>"

text \<open>
  The tail both generators share: parse the two time columns (raising on an unparseable
  cell) and keep the rows that start before they end.
\<close>

definition keep_ordered :: "time_text trip_row list \<Rightarrow> error + timestamp option trip_row list" where
  "keep_ordered rows =
     (if list_ex (\<lambda>r. unparseable (start_time r) \<or> unparseable (end_time r)) rows
      then Inl ValueError
      else Inr (filter (\<lambda>r. start_quality_condition (start_time r) (end_time r))
                  (map parse_times rows)))"

definition generate_metro_trips_dataframe ::
  "time_text raw_trip list \<Rightarrow> ('u, 'z) station list \<Rightarrow> 'u bike list \<Rightarrow>
   error + timestamp option trip_row list" where
  "generate_metro_trips_dataframe df_metro df_stations_metro df_bikes_metro =
     (let df_metro = map (\<lambda>r. r \<lparr> bike_id := astype_str (bike_id r) \<rparr>) df_metro;
          df_trips_metro = drop_duplicates
            (map metro_trip_columns (filter (trackable df_stations_metro df_bikes_metro) df_metro))
      in keep_ordered (map minutes_to_seconds df_trips_metro))"

definition generate_capital_trips_dataframe ::
  "time_text raw_trip list \<Rightarrow> ('u, 'z) station list \<Rightarrow> 'u bike list \<Rightarrow>
   error + timestamp option trip_row list" where
  "generate_capital_trips_dataframe df_capital df_stations_capital df_bikes_capital =
     (let df_capital = map (\<lambda>r. r \<lparr> bike_id := astype_str (bike_id r) \<rparr>) df_capital;
          df_trips_capital = drop_duplicates
            (map capital_trip_columns
               (filter (trackable df_stations_capital df_bikes_capital) df_capital))
      in keep_ordered df_trips_capital)"

text \<open>The member vocabulary, rewritten by eight assignments in this order.\<close>

definition member_type_rules :: "(string \<times> string) list" where
  "member_type_rules =
     [(''Member'', ''member''), (''Flex Pass'', ''member''), (''Annual Pass'', ''member''),
      (''Monthly Pass'', ''member''), (''One Day Pass'', ''member''), (''Casual'', ''casual''),
      (''Walk-up'', ''casual''), (''Testing'', ''casual'')]"

definition homogenize_member_type :: "string option \<Rightarrow> string option" where
  "homogenize_member_type m =
     fold (\<lambda>(old, new) c. if c = Some old then Some new else c) member_type_rules m"

text \<open>The sort key of a time column: NaT goes last.\<close>

definition na_last :: "timestamp option \<Rightarrow> nat \<times> int" where
  "na_last c = (case c of Some t \<Rightarrow> (0, t) | None \<Rightarrow> (1, 0))"

text \<open>
  \<open>generate_trips_dataframe\<close> with the four registries given. The inserted \<open>trip_uuid\<close>
  column is the first component of each pair.
\<close>

definition generate_trips_dataframe ::
  "(nat \<Rightarrow> nat \<Rightarrow> 'u) \<Rightarrow> time_text raw_trip list \<Rightarrow> time_text raw_trip list \<Rightarrow>
   ('u, 'z) station list \<Rightarrow> 'u bike list \<Rightarrow> ('u, 'z) station list \<Rightarrow> 'u bike list \<Rightarrow>
   error + ('u \<times> timestamp option trip_row) list" where
  "generate_trips_dataframe getrandbits df_metro df_capital
       df_stations_metro df_bikes_metro df_stations_capital df_bikes_capital =
     (case generate_metro_trips_dataframe df_metro df_stations_metro df_bikes_metro of
        Inl err \<Rightarrow> Inl err
      | Inr df_trips_metro \<Rightarrow>
          (case generate_capital_trips_dataframe df_capital df_stations_capital df_bikes_capital of
             Inl err \<Rightarrow> Inl err
           | Inr df_trips_capital \<Rightarrow>
               let df_trips = map (\<lambda>r. r \<lparr> member_type := homogenize_member_type (member_type r) \<rparr>)
                                (df_trips_metro @ df_trips_capital);
                   keyed = zip (uuids getrandbits 4 (length df_trips)) df_trips
               in Inr (sort_key (\<lambda>(u, r). (na_last (start_time r), na_last (end_time r))) keyed)))"

text \<open>\<open>set_index(key)[column].to_dict()\<close>: of two rows with one key the later one wins.\<close>

definition to_dict :: "('k \<times> 'v) list \<Rightarrow> ('k \<rightharpoonup> 'v)" where
  "to_dict pairs = map_of (rev pairs)"

text \<open>\<open>Series.map(dict)\<close>: a missing cell and an absent key both give a missing cell.\<close>

definition map_dict :: "('k \<rightharpoonup> 'v) \<Rightarrow> 'k option \<Rightarrow> 'v option" where
  "map_dict d c = (case c of None \<Rightarrow> None | Some k \<Rightarrow> d k)"

definition map_trips_foreign_keys_to_uuids ::
  "('u \<times> timestamp option trip_row) list \<Rightarrow> ('u, 'z) station list \<Rightarrow> 'u bike list \<Rightarrow>
   ('u, timestamp option) trip list" where
  "map_trips_foreign_keys_to_uuids df_trips df_stations df_bikes =
     (let station_map = to_dict (map (\<lambda>s. (original_station_id s, station_uuid s)) df_stations);
          bike_map = to_dict (map (\<lambda>b. (original_bike_id b, bike_uuid b)) df_bikes)
      in map (\<lambda>(u, r).
            \<lparr> start_time = start_time r, end_time = end_time r, member_type = member_type r,
              duration = duration r, trip_uuid = u,
              start_station_uuid = map_dict station_map (start_station_id r),
              end_station_uuid = map_dict station_map (end_station_id r),
              bike_ref = map_dict bike_map (bike_id r) \<rparr>) df_trips)"

text \<open>
  Step 5 of \<open>main\<close>: rows with a missing time are dropped, the two time columns are written
  with \<open>strftime\<close>, and the rows are split into one file per year and month of the start.
\<close>

definition write_times :: "('u, timestamp option) trip \<Rightarrow> ('u, time_text) trip list" where
  "write_times r =
     (case (start_time r, end_time r) of
        (Some a, Some b) \<Rightarrow>
          [\<lparr> start_time = strftime a, end_time = strftime b, member_type = member_type r,
             duration = duration r, trip_uuid = trip_uuid r,
             start_station_uuid = start_station_uuid r,
             end_station_uuid = end_station_uuid r, bike_ref = bike_ref r \<rparr>]
      | _ \<Rightarrow> [])"

definition in_month :: "int \<Rightarrow> int \<Rightarrow> ('u, timestamp option) trip \<Rightarrow> bool" where
  "in_month y m r =
     (case start_time r of Some a \<Rightarrow> dt_year a = y \<and> dt_month a = m | None \<Rightarrow> False)"

definition trips_file :: "('u, timestamp option) trip list \<Rightarrow> int \<Rightarrow> int \<Rightarrow> ('u, time_text) trip list" where
  "trips_file df_trips_mapped y m = concat (map write_times (filter (in_month y m) df_trips_mapped))"

subsection \<open>data\_cleaning\_homogenization.py: aggregation by key\<close>

definition present :: "'a option list \<Rightarrow> 'a list" where
  "present col = map the (filter (\<lambda>c. c \<noteq> None) col)"

text \<open>
  \<open>Series.mode()\<close>: the values that occur most often among the cells that are not
  missing, in ascending order. \<open>safe_mode\<close> returns the first of them, NaN when there is none.
\<close>

definition mode :: "'a::linorder option list \<Rightarrow> 'a list" where
  "mode series =
     (let vals = present series
      in sort (remdups (filter (\<lambda>v. list_all (\<lambda>w. count_list vals w \<le> count_list vals v) vals) vals)))"

definition safe_mode :: "'a::linorder option list \<Rightarrow> 'a option" where
  "safe_mode series = (case mode series of [] \<Rightarrow> None | m # rest \<Rightarrow> Some m)"

text \<open>The \<open>first\<close> aggregation: the first cell of the group that is not missing.\<close>

definition first_valid :: "'a option list \<Rightarrow> 'a option" where
  "first_valid col = (case present col of [] \<Rightarrow> None | v # rest \<Rightarrow> Some v)"

text \<open>The keys of a \<open>groupby\<close>: the distinct keys that are not missing, in ascending order.\<close>

definition group_keys :: "'k::linorder option list \<Rightarrow> 'k list" where
  "group_keys col = sort (remdups (present col))"

subsection \<open>data\_cleaning\_homogenization.py: stations\<close>

text \<open>
  A station as one end of a trip mentions it: the columns \<open>station_id\<close>, \<open>lat\<close>, \<open>lon\<close>
  and \<open>station_name\<close>. The id is an optional number in the operator tables and a number
  once \<open>groupby\<close> made it the key.
\<close>

record 'i mention =
  station_id :: 'i
  lat :: "real option"
  lon :: "real option"
  name :: "string option"

definition start_mention :: "'t raw_trip \<Rightarrow> int option mention" where
  "start_mention r = \<lparr> station_id = start_station_id r, lat = start_lat r, lon = start_lon r,
     name = start_station_name r \<rparr>"

definition end_mention :: "'t raw_trip \<Rightarrow> int option mention" where
  "end_mention r = \<lparr> station_id = end_station_id r, lat = end_lat r, lon = end_lon r,
     name = end_station_name r \<rparr>"

text \<open>
  \<open>groupby(by=["station_id"]).agg(lat=('lat', safe_mode), lon=('lon', safe_mode),
  station_name=('station_name', 'first'))\<close> followed by \<open>reset_index()\<close>; \<open>key\<close> reads the
  grouping column of a row.
\<close>

definition agg_stations :: "('i \<Rightarrow> int option) \<Rightarrow> 'i mention list \<Rightarrow> int mention list" where
  "agg_stations key rows =
     map (\<lambda>k. let g = filter (\<lambda>r. key (station_id r) = Some k) rows
              in \<lparr> station_id = k, lat = safe_mode (map lat g), lon = safe_mode (map lon g),
                   name = first_valid (map name g) \<rparr>)
         (group_keys (map (\<lambda>r. key (station_id r)) rows))"

text \<open>
  \<open>sort_values\<close> is modelled as a stable sort; pandas' default is not stable, which can
  only change which name is first in a group.
\<close>

definition get_metro_unique_stations :: "int option mention list \<Rightarrow> int mention list" where
  "get_metro_unique_stations df_stations_terminal =
     agg_stations id (sort_key (\<lambda>r. na_last (station_id r)) (drop_duplicates df_stations_terminal))"

text \<open>
  The Capital variant. \<open>str_digits x\<close> is the number of decimal digits in \<open>str(x)\<close>, a
  parameter; the string of NaN has none. The rows are grouped by place first, keeping
  the first id and name of each place; \<open>astype(int)\<close> raises on a missing id.
\<close>

definition digits_in :: "(real \<Rightarrow> nat) \<Rightarrow> real option \<Rightarrow> nat" where
  "digits_in str_digits c = (case c of None \<Rightarrow> 0 | Some x \<Rightarrow> str_digits x)"

definition place :: "'i mention \<Rightarrow> (real \<times> real) option" where
  "place r = (case (lat r, lon r) of (Some la, Some lo) \<Rightarrow> Some (la, lo) | _ \<Rightarrow> None)"

definition first_by_place :: "int option mention list \<Rightarrow> int option mention list" where
  "first_by_place rows =
     map (\<lambda>p. let g = filter (\<lambda>r. place r = Some p) rows
              in \<lparr> station_id = first_valid (map station_id g), lat = Some (fst p),
                   lon = Some (snd p), name = first_valid (map name g) \<rparr>)
         (group_keys (map place rows))"

definition get_capital_unique_stations ::
  "(real \<Rightarrow> nat) \<Rightarrow> int option mention list \<Rightarrow> error + int mention list" where
  "get_capital_unique_stations str_digits df_stations_terminal =
     (let valid = filter (\<lambda>r. 6 < digits_in str_digits (lat r) \<and> 6 < digits_in str_digits (lon r))
                    df_stations_terminal;
          by_place = first_by_place valid
      in if list_ex (\<lambda>r. station_id r = None) by_place then Inl ValueError
         else Inr (agg_stations id by_place))"

definition rectify :: "real \<Rightarrow> real \<Rightarrow> real option \<Rightarrow> real option" where
  "rectify centre tolerance c =
     (case c of
        None \<Rightarrow> None
      | Some x \<Rightarrow>
          if \<bar>\<bar>x\<bar> - \<bar>centre\<bar>\<bar> \<le> tolerance \<and> sgn x \<noteq> sgn centre then Some (x * - 1) else Some x)"

definition rectify_coordinates :: "int mention list \<Rightarrow> real \<Rightarrow> real \<Rightarrow> real \<Rightarrow> int mention list" where
  "rectify_coordinates df_stations city_latitude city_longitude tolerance =
     map (\<lambda>r. r \<lparr> lat := rectify city_latitude tolerance (lat r),
                  lon := rectify city_longitude tolerance (lon r) \<rparr>) df_stations"

text \<open>
  What the two station generators share once the start and end tables are resolved:
  concatenate, drop duplicates, drop rows without coordinates, group again, rectify,
  look the ZIP codes up (a station without a dictionary entry gets NaN), add the city
  and the surrogate ids.
\<close>

definition combine_terminals :: "int mention list \<Rightarrow> int mention list \<Rightarrow> int mention list" where
  "combine_terminals df_stations_start df_stations_end =
     agg_stations Some
       (filter (\<lambda>r. lat r \<noteq> None \<and> lon r \<noteq> None)
          (drop_duplicates (df_stations_start @ df_stations_end)))"

definition finish_stations ::
  "(nat \<Rightarrow> nat \<Rightarrow> 'u) \<Rightarrow> (nat \<Rightarrow> int \<Rightarrow> real option \<Rightarrow> real option \<Rightarrow> string option option) \<Rightarrow>
   nat \<Rightarrow> string \<Rightarrow> real \<Rightarrow> real \<Rightarrow> int mention list \<Rightarrow> error + ('u, string option) station list" where
  "finish_stations getrandbits get_zip_code seed_value city_name city_latitude city_longitude df_stations =
     (let df_stations = rectify_coordinates df_stations city_latitude city_longitude 3
      in case get_zip_code_by_coordenates get_zip_code (map (\<lambda>r. (lat r, lon r)) df_stations) 5 of
           Inl err \<Rightarrow> Inl err
         | Inr zip_dict \<Rightarrow>
             Inr (map (\<lambda>(i, u, r).
                    \<lparr> station_uuid = u, original_station_id = station_id r, latitude = lat r,
                      longitude = lon r, station_name = name r, city = city_name,
                      zip_code = (case zip_dict i of None \<Rightarrow> None | Some z \<Rightarrow> z) \<rparr>)
                  (zip [0 ..< length df_stations]
                     (zip (uuids getrandbits seed_value (length df_stations)) df_stations))))"

definition station_columns :: "'t raw_trip list \<Rightarrow> (int option mention \<times> int option mention) list" where
  "station_columns df = drop_duplicates (map (\<lambda>r. (start_mention r, end_mention r)) df)"

definition generate_metro_stations_dataframe ::
  "(nat \<Rightarrow> nat \<Rightarrow> 'u) \<Rightarrow> (nat \<Rightarrow> int \<Rightarrow> real option \<Rightarrow> real option \<Rightarrow> string option option) \<Rightarrow>
   't raw_trip list \<Rightarrow> error + ('u, string option) station list" where
  "generate_metro_stations_dataframe getrandbits get_zip_code df_metro =
     (let df_stations = station_columns df_metro;
          df_stations_start = get_metro_unique_stations (map fst df_stations);
          df_stations_end = get_metro_unique_stations (map snd df_stations)
      in finish_stations getrandbits get_zip_code 0 ''Los Angeles'' 34.059753 (- 118.2375)
           (combine_terminals df_stations_start df_stations_end))"

definition generate_capital_stations_dataframe ::
  "(nat \<Rightarrow> nat \<Rightarrow> 'u) \<Rightarrow> (nat \<Rightarrow> int \<Rightarrow> real option \<Rightarrow> real option \<Rightarrow> string option option) \<Rightarrow>
   (real \<Rightarrow> nat) \<Rightarrow> 't raw_trip list \<Rightarrow> error + ('u, string option) station list" where
  "generate_capital_stations_dataframe getrandbits get_zip_code str_digits df_capital =
     (let df_stations = station_columns df_capital
      in case get_capital_unique_stations str_digits (map fst df_stations) of
           Inl err \<Rightarrow> Inl err
         | Inr df_stations_start \<Rightarrow>
             (case get_capital_unique_stations str_digits (map snd df_stations) of
                Inl err \<Rightarrow> Inl err
              | Inr df_stations_end \<Rightarrow>
                  finish_stations getrandbits get_zip_code 1 ''Washington D.C.'' 38.910366 (- 77.07251)
                    (combine_terminals df_stations_start df_stations_end)))"

subsection \<open>data\_cleaning\_homogenization.py: bikes\<close>

text \<open>\<open>str.count(r'\d')\<close>: the number of digits in a string.\<close>

definition digit_count :: "string \<Rightarrow> nat" where
  "digit_count s = length (filter (\<lambda>c. c \<in> set ''0123456789'') s)"

text \<open>
  \<open>drop_duplicates\<close>, \<open>astype(str)\<close>, \<open>groupby(by=["bike_id"]).agg(safe_mode)\<close>,
  \<open>reset_index\<close> and the filter on ids with fewer than four digits.
\<close>

definition bikes_by_id :: "'t raw_trip list \<Rightarrow> (string \<times> string option) list" where
  "bikes_by_id df =
     (let df_bikes = map (\<lambda>(i, t). (str_of i, t))
                       (drop_duplicates (map (\<lambda>r. (bike_id r, bike_type r)) df));
          grouped = map (\<lambda>k. (k, safe_mode (map snd (filter (\<lambda>(i, t). i = k) df_bikes))))
                      (sort (remdups (map fst df_bikes)))
      in filter (\<lambda>(k, t). 4 \<le> digit_count k) grouped)"

definition with_uuids :: "(nat \<Rightarrow> nat \<Rightarrow> 'u) \<Rightarrow> nat \<Rightarrow> (string \<times> string option) list \<Rightarrow> 'u bike list" where
  "with_uuids getrandbits seed_value df_bikes =
     map (\<lambda>(u, k, t). \<lparr> bike_uuid = u, original_bike_id = k, bike_type_of = t \<rparr>)
       (zip (uuids getrandbits seed_value (length df_bikes)) df_bikes)"

definition generate_metro_bikes_dataframe :: "(nat \<Rightarrow> nat \<Rightarrow> 'u) \<Rightarrow> 't raw_trip list \<Rightarrow> 'u bike list" where
  "generate_metro_bikes_dataframe getrandbits df_metro = with_uuids getrandbits 2 (bikes_by_id df_metro)"

text \<open>The Capital bike types: a missing type becomes \<open>classic_bike\<close>, then three renamings in order.\<close>

definition homogenize_bike_type :: "string option \<Rightarrow> string option" where
  "homogenize_bike_type t =
     (let t = (if t = None then Some ''classic_bike'' else t);
          t = (if t = Some ''classic_bike'' then Some ''standard'' else t);
          t = (if t = Some ''docked_bike'' then Some ''standard'' else t);
          t = (if t = Some ''electric_bike'' then Some ''electric'' else t)
      in t)"

definition generate_capital_bikes_dataframe :: "(nat \<Rightarrow> nat \<Rightarrow> 'u) \<Rightarrow> 't raw_trip list \<Rightarrow> 'u bike list" where
  "generate_capital_bikes_dataframe getrandbits df_capital =
     with_uuids getrandbits 3 (map (\<lambda>(k, t). (k, homogenize_bike_type t)) (bikes_by_id df_capital))"

definition generate_bikes_dataframe ::
  "(nat \<Rightarrow> nat \<Rightarrow> 'u) \<Rightarrow> 't raw_trip list \<Rightarrow> 't raw_trip list \<Rightarrow> 'u bike list" where
  "generate_bikes_dataframe getrandbits df_metro df_capital =
     generate_metro_bikes_dataframe getrandbits df_metro @
     generate_capital_bikes_dataframe getrandbits df_capital"

text \<open>
  The end of \<open>homogenize_capital_dataset\<close>: three assignments give a row without a bike
  id a placeholder id, chosen by its bike type.
\<close>

definition add_missing_bike_ids :: "'t raw_trip \<Rightarrow> 't raw_trip" where
  "add_missing_bike_ids r =
     (let r = (if bike_id r = None \<and> bike_type r = Some ''classic_bike''
               then r \<lparr> bike_id := Some ''0000_classic'' \<rparr> else r);
          r = (if bike_id r = None \<and> bike_type r = Some ''electric_bike''
               then r \<lparr> bike_id := Some ''0000_electric'' \<rparr> else r);
          r = (if bike_id r = None \<and> bike_type r = Some ''docked_bike''
               then r \<lparr> bike_id := Some ''0000_docked'' \<rparr> else r)
      in r)"

subsection \<open>data\_cleaning\_homogenization.py: demographics\<close>

text \<open>
  A cell of the \<open>zip_code\<close> column of the demographics table: the number that
  \<open>pd.to_numeric\<close> made of a census answer, the string of a station's ZIP code, or NaN.
\<close>

datatype zip = ZipNumber int | ZipText string | ZipNaN

text \<open>
  A row of the demographics table: the \<open>zip_code\<close> column (field \<open>zcta\<close>, after its
  census name ``zip code tabulation area'') and the indicator columns in table order; the
  \<open>zip_code_uuid\<close> column is inserted later. A table is rectangular: every row has the
  same number of indicators; where a shorter row is read beyond its end, the cell is
  missing, as in a concatenation of frames.
\<close>

record area =
  zcta :: zip
  indicators :: "real option list"

record 'u demographic = area +
  zip_code_uuid :: 'u

definition cell :: "real option list \<Rightarrow> nat \<Rightarrow> real option" where
  "cell row j = (if j < length row then row ! j else None)"

definition width :: "real option list list \<Rightarrow> nat" where
  "width X = fold max (map length X) 0"

text \<open>\<open>Series.median()\<close> of the values that are not missing; NaN when there is none.\<close>

definition median :: "real list \<Rightarrow> real option" where
  "median vals =
     (let s = sort vals; n = length s
      in if n = 0 then None
         else if odd n then Some (s ! (n div 2))
         else Some ((s ! (n div 2 - 1) + s ! (n div 2)) / 2))"

text \<open>\<open>df_demographics.median()\<close> over the indicator columns.\<close>

definition median_row :: "real option list list \<Rightarrow> real option list" where
  "median_row X = map (\<lambda>j. median (present (map (\<lambda>row. cell row j) X))) [0 ..< width X]"

definition zip_cell :: "string option \<Rightarrow> zip" where
  "zip_cell z = (case z of None \<Rightarrow> ZipNaN | Some code \<Rightarrow> ZipText code)"

text \<open>
  The loop over \<open>failed_zip_codes\<close>: each step appends the median row of the table as it
  is at that moment, with the failed ZIP code in the \<open>zip_code\<close> column.
\<close>

definition insert_median_row :: "string option \<Rightarrow> area list \<Rightarrow> area list" where
  "insert_median_row z df = df @ [\<lparr> zcta = zip_cell z, indicators = median_row (map indicators df) \<rparr>]"

text \<open>
  \<open>request_census_data\<close> is external: \<open>census z\<close> is \<open>None\<close> when the request for ZIP
  code \<open>z\<close> returns no data, and otherwise the numeric area code and the numeric
  indicator values of the answer, in table order. An empty table has no columns, and
  reading the first indicator column of it raises \<open>KeyError\<close>.
\<close>

definition answered :: "(string option \<Rightarrow> (int \<times> real option list) option) \<Rightarrow> string option list \<Rightarrow> area list" where
  "answered census zip_codes =
     concat (map (\<lambda>z. case census z of
                          None \<Rightarrow> []
                        | Some (code, vals) \<Rightarrow> [\<lparr> zcta = ZipNumber code, indicators = vals \<rparr>])
                 zip_codes)"

definition failed_zip_codes :: "(string option \<Rightarrow> (int \<times> real option list) option) \<Rightarrow> string option list \<Rightarrow> string option list" where
  "failed_zip_codes census zip_codes = filter (\<lambda>z. census z = None) zip_codes"

definition demographics_before_imputation ::
  "(nat \<Rightarrow> nat \<Rightarrow> 'u) \<Rightarrow> (string option \<Rightarrow> (int \<times> real option list) option) \<Rightarrow>
   ('v, string option) station list \<Rightarrow> error + 'u demographic list" where
  "demographics_before_imputation getrandbits census df_stations =
     (let zip_codes = drop_duplicates (map zip_code df_stations);
          df_demographics = answered census zip_codes
      in if df_demographics = [] then Inl KeyError
         else let df_demographics = fold insert_median_row (failed_zip_codes census zip_codes) df_demographics
              in Inr (map (\<lambda>(u, r). \<lparr> zcta = zcta r, indicators = indicators r, zip_code_uuid = u \<rparr>)
                        (zip (uuids getrandbits 5 (length df_demographics)) df_demographics)))"

text \<open>
  \<open>impute_hidden_values\<close>, first part: the columns that hold a negative value; in these
  columns every negative value becomes missing.
\<close>

definition hidden_values_columns :: "real option list list \<Rightarrow> nat list" where
  "hidden_values_columns X =
     filter (\<lambda>j. list_ex (\<lambda>row. case cell row j of None \<Rightarrow> False | Some v \<Rightarrow> v < 0) X)
       [0 ..< width X]"

definition hide_column :: "nat \<Rightarrow> real option list \<Rightarrow> real option list" where
  "hide_column j row =
     (if j < length row
      then row [j := (case row ! j of None \<Rightarrow> None | Some v \<Rightarrow> if v < 0 then None else Some v)]
      else row)"

definition hide_values :: "'u demographic list \<Rightarrow> 'u demographic list" where
  "hide_values df =
     fold (\<lambda>j rows. map (\<lambda>r. r \<lparr> indicators := hide_column j (indicators r) \<rparr>) rows)
       (hidden_values_columns (map indicators df)) df"

text \<open>
  Second part: a row whose indicators, the missing ones skipped, sum to zero has its
  missing cells filled with zero (\<open>fillna(0)\<close> on the whole row, the \<open>zip_code\<close> cell
  included).
\<close>

definition row_sum :: "real option list \<Rightarrow> real" where
  "row_sum row = sum_list (present row)"

definition fillna_zero :: "'u demographic \<Rightarrow> 'u demographic" where
  "fillna_zero r =
     r \<lparr> zcta := (case zcta r of ZipNaN \<Rightarrow> ZipNumber 0 | z \<Rightarrow> z),
         indicators := map (\<lambda>c. case c of None \<Rightarrow> Some 0 | Some v \<Rightarrow> Some v) (indicators r) \<rparr>"

definition zero_values :: "'u demographic list \<Rightarrow> 'u demographic list" where
  "zero_values df = map (\<lambda>r. if row_sum (indicators r) = 0 then fillna_zero r else r) df"

definition prepare :: "'u demographic list \<Rightarrow> 'u demographic list" where
  "prepare df = zero_values (hide_values df)"

text \<open>
  Third part: \<open>IterativeImputer(estimator=BayesianRidge(), max_iter=100,
  random_state=19).fit_transform\<close>, a library call. It is modelled by what the library
  documents: a cell that is present is returned as it is, a missing cell is replaced by
  an estimate, and a column without any present value is dropped from the result. The
  estimate is a parameter: \<open>predict X i j\<close> is the value the fitted regression gives for
  the missing cell in row \<open>i\<close> and column \<open>j\<close> of \<open>X\<close>. No bound is passed to the
  imputer (\<open>min_value\<close> is left at minus infinity). A table without rows or columns is
  rejected, and a result with fewer columns cannot be assigned back; both raise
  \<open>ValueError\<close>.
\<close>

definition fit_transform ::
  "(real option list list \<Rightarrow> nat \<Rightarrow> nat \<Rightarrow> real) \<Rightarrow> real option list list \<Rightarrow> real list list" where
  "fit_transform predict X =
     map (\<lambda>i. map (\<lambda>j. case cell (X ! i) j of None \<Rightarrow> predict X i j | Some v \<Rightarrow> v)
                   (filter (\<lambda>j. list_ex (\<lambda>row. cell row j \<noteq> None) X) [0 ..< width X]))
         [0 ..< length X]"

definition impute_hidden_values ::
  "(real option list list \<Rightarrow> nat \<Rightarrow> nat \<Rightarrow> real) \<Rightarrow> 'u demographic list \<Rightarrow> error + 'u demographic list" where
  "impute_hidden_values predict df_demographics =
     (let df = prepare df_demographics;
          X = map indicators df
      in if X = [] \<or> width X = 0 then Inl ValueError
         else if list_ex (\<lambda>j. list_all (\<lambda>row. cell row j = None) X) [0 ..< width X]
         then Inl ValueError
         else Inr (map (\<lambda>(r, vals). r \<lparr> indicators := map Some vals \<rparr>)
                     (zip df (fit_transform predict X))))"

definition generate_demographics_dataframe ::
  "(nat \<Rightarrow> nat \<Rightarrow> 'u) \<Rightarrow> (string option \<Rightarrow> (int \<times> real option list) option) \<Rightarrow>
   (real option list list \<Rightarrow> nat \<Rightarrow> nat \<Rightarrow> real) \<Rightarrow> ('v, string option) station list \<Rightarrow>
   error + 'u demographic list" where
  "generate_demographics_dataframe getrandbits census predict df_stations =
     (case demographics_before_imputation getrandbits census df_stations of
        Inl err \<Rightarrow> Inl err
      | Inr df_demographics \<Rightarrow> impute_hidden_values predict df_demographics)"

subsection \<open>Notions used in the statements\<close>

text \<open>
  \<open>first_mode vals m\<close>: \<open>m\<close> occurs in \<open>vals\<close>, no value occurs more often, and
  \<open>m\<close> is the smallest of the values that occur most often.
\<close>

definition first_mode :: "'a::linorder list \<Rightarrow> 'a \<Rightarrow> bool" where
  "first_mode vals m \<longleftrightarrow>
     m \<in> set vals \<and>
     (\<forall>w \<in> set vals. count_list vals w \<le> count_list vals m) \<and>
     (\<forall>w \<in> set vals. (\<forall>u \<in> set vals. count_list vals u \<le> count_list vals w) \<longrightarrow> m \<le> w)"

text \<open>
  The rows that \<open>get_metro_unique_stations\<close> aggregates for station \<open>k\<close>: the distinct
  (id, lat, lon, name) rows of one end of the trips that carry this id.
\<close>

definition terminal_candidates :: "int option mention list \<Rightarrow> int \<Rightarrow> int option mention list" where
  "terminal_candidates rows k = filter (\<lambda>r. station_id r = Some k) (drop_duplicates rows)"

text \<open>
  The rows that the second aggregation of the Metro generator sees for station \<open>k\<close>: the
  distinct results of the two ends that have both coordinates.
\<close>

definition resolved_candidates :: "'t raw_trip list \<Rightarrow> int \<Rightarrow> int mention list" where
  "resolved_candidates df k =
     filter (\<lambda>r. station_id r = k)
       (filter (\<lambda>r. lat r \<noteq> None \<and> lon r \<noteq> None)
          (drop_duplicates
             (get_metro_unique_stations (map fst (station_columns df)) @
              get_metro_unique_stations (map snd (station_columns df)))))"

text \<open>
  Modelled from the claim, for comparison with the code: the coordinates of every mention
  of station \<open>k\<close> at either end of a trip, repeated mentions included.
\<close>

definition endpoint_mentions :: "'t raw_trip list \<Rightarrow> int \<Rightarrow> (real option \<times> real option) list" where
  "endpoint_mentions df k =
     concat (map (\<lambda>r. map (\<lambda>m. (lat m, lon m))
                          (filter (\<lambda>m. station_id m = Some k) [start_mention r, end_mention r])) df)"

subsection \<open>Example tables\<close>

text \<open>
  Concrete inputs on which the theorems below are instantiated. Surrogate ids are natural
  numbers, drawn from a stand-in generator.
\<close>

definition example_getrandbits :: "nat \<Rightarrow> nat \<Rightarrow> nat" where
  "example_getrandbits seed i = 1000 * seed + i"

definition station_a :: "(nat, string) station" where
  "station_a = \<lparr> station_uuid = 1, original_station_id = 3005, latitude = Some 0,
     longitude = Some 0, station_name = Some ''A'', city = ''Los Angeles'',
     zip_code = ''90017'' \<rparr>"

definition station_b :: "(nat, string) station" where
  "station_b = \<lparr> station_uuid = 2, original_station_id = 3006, latitude = Some 0,
     longitude = Some 180, station_name = Some ''B'', city = ''Los Angeles'',
     zip_code = ''90018'' \<rparr>"

definition bike_1 :: "nat bike" where
  "bike_1 = \<lparr> bike_uuid = 2000, original_bike_id = ''12345'', bike_type_of = Some ''standard'' \<rparr>"

text \<open>
  2023-12-09T00:00:00 is 19700 days after the epoch. The first trip lasts ten minutes and
  returns to its station; the second crosses half the globe in one second.
\<close>

definition t0 :: timestamp where
  "t0 = 19700 * ns_per_day"

definition trip_slow :: "(nat, time_text) trip" where
  "trip_slow = \<lparr> start_time = Text t0, end_time = Text (t0 + 600000000000),
     member_type = Some ''member'', duration = Some 600, trip_uuid = 4000,
     start_station_uuid = Some 1, end_station_uuid = Some 1, bike_ref = Some 2000 \<rparr>"

definition trip_fast :: "(nat, time_text) trip" where
  "trip_fast = \<lparr> start_time = Text t0, end_time = Text (t0 + 1000000000),
     member_type = Some ''casual'', duration = Some 1, trip_uuid = 4001,
     start_station_uuid = Some 1, end_station_uuid = Some 2, bike_ref = Some 2000 \<rparr>"

text \<open>Two Metro rows from a known station and back on a known bike; the second ends before it starts.\<close>

definition metro_row_1 :: "time_text raw_trip" where
  "metro_row_1 = \<lparr> start_time = Text (t0 + 1500), end_time = Text (t0 + 600000000000),
     member_type = Some ''Monthly Pass'', duration = Some 10, trip_id = Some ''101'',
     start_station_id = Some 3005, end_station_id = Some 3005, bike_id = Some ''12345'',
     plan_duration = Some 30, trip_route_category = Some ''Round Trip'',
     start_lat = Some 0, start_lon = Some 0, start_station_name = Some ''A'',
     end_lat = Some 0, end_lon = Some 0, end_station_name = Some ''A'',
     bike_type = Some ''standard'' \<rparr>"

definition metro_row_2 :: "time_text raw_trip" where
  "metro_row_2 = metro_row_1 \<lparr> start_time := Text (t0 + 600000000000), end_time := Text t0,
     trip_id := Some ''102'' \<rparr>"

text \<open>
  Capital rows without a bike id: two classic bikes, and one row that has no bike type
  either.
\<close>

definition capital_row_1 :: "time_text raw_trip" where
  "capital_row_1 = \<lparr> start_time = Text t0, end_time = Text (t0 + 600000000000),
     member_type = Some ''member'', duration = None, trip_id = Some ''C1'',
     start_station_id = Some 31000, end_station_id = Some 31001, bike_id = None,
     plan_duration = None, trip_route_category = None,
     start_lat = Some 38.9000001, start_lon = Some (- 77.0000001), start_station_name = Some ''P'',
     end_lat = Some 38.9000002, end_lon = Some (- 77.0000002), end_station_name = Some ''Q'',
     bike_type = Some ''classic_bike'' \<rparr>"

definition capital_row_2 :: "time_text raw_trip" where
  "capital_row_2 = capital_row_1 \<lparr> trip_id := Some ''C2'', member_type := Some ''casual'' \<rparr>"

definition capital_row_untyped :: "time_text raw_trip" where
  "capital_row_untyped = capital_row_1 \<lparr> trip_id := Some ''C3'', bike_type := None \<rparr>"

text \<open>
  Trips between two stations given by id, latitude and longitude, for the station
  generators; every coordinate used with the Capital generator prints with nine digits.
\<close>

definition trip_between :: "int \<Rightarrow> real \<Rightarrow> real \<Rightarrow> int \<Rightarrow> real \<Rightarrow> real \<Rightarrow> time_text raw_trip" where
  "trip_between k la lo k' la' lo' =
     metro_row_1 \<lparr> start_station_id := Some k, end_station_id := Some k',
       start_lat := Some la, start_lon := Some lo, end_lat := Some la', end_lon := Some lo' \<rparr>"

definition round_trip :: "int \<Rightarrow> real \<Rightarrow> real \<Rightarrow> time_text raw_trip" where
  "round_trip k la lo = trip_between k la lo k la lo"

definition example_str_digits :: "real \<Rightarrow> nat" where
  "example_str_digits x = 9"

text \<open>
  Station 3005 mentioned with coordinates (1, 1) twice and (2, 2) once, and the other
  way round.
\<close>

definition seen_twice_low :: "time_text raw_trip list" where
  "seen_twice_low =
     [trip_between 3005 1 1 3006 5 5, trip_between 3005 1 1 3007 6 6,
      trip_between 3005 2 2 3006 5 5]"

definition seen_twice_high :: "time_text raw_trip list" where
  "seen_twice_high =
     [trip_between 3005 2 2 3006 5 5, trip_between 3005 2 2 3007 6 6,
      trip_between 3005 1 1 3006 5 5]"

text \<open>
  Three Capital round trips: station 5 at one place, station 2 at a second place, and
  station 5 again at that second place; and the same rows with the two rows of station 5
  exchanged.
\<close>

definition shared_place :: "time_text raw_trip list" where
  "shared_place =
     [round_trip 5 38.9000001 (- 77.0000001), round_trip 2 38.9000002 (- 77.0000002),
      round_trip 5 38.9000002 (- 77.0000002)]"

definition shared_place_exchanged :: "time_text raw_trip list" where
  "shared_place_exchanged =
     [round_trip 5 38.9000002 (- 77.0000002), round_trip 2 38.9000002 (- 77.0000002),
      round_trip 5 38.9000001 (- 77.0000001)]"

section \<open>Properties\<close>

subsection \<open>The retry loops of the reverse geocoding\<close>

lemma retry_loop_last:
  "ks \<noteq> [] \<Longrightarrow> \<exists>k \<in> set ks. fst (retry_loop attempt ks r0) = Some k"
proof (induction ks arbitrary: r0)
  case Nil
  then show ?case by simp
next
  case (Cons k ks)
  show ?case
  proof (cases "attempt k")
    case (Some z)
    then show ?thesis by simp
  next
    case None
    show ?thesis
    proof (cases "ks = []")
      case True
      with None show ?thesis by simp
    next
      case False
      from Cons.IH [OF False, of "Some k"] None show ?thesis by auto
    qed
  qed
qed

lemma station_loop_returns:
  assumes "0 < retries"
  shows "\<exists>d. station_loop get_zip_code retries rows zip_dict retry_i = Inr d"
proof (induction rows arbitrary: zip_dict retry_i)
  case Nil
  show ?case by simp
next
  case (Cons row rows)
  obtain i la lo where row: "row = (i, la, lo)" by (cases row) auto
  from assms have ne: "[0 .. retries - 1] \<noteq> []" by (simp add: upto.simps)
  from retry_loop_last [OF ne, of "\<lambda>k. get_zip_code i k la lo" retry_i]
  obtain k found where k: "k \<in> set [0 .. retries - 1]"
    and rl: "retry_loop (\<lambda>k. get_zip_code i k la lo) [0 .. retries - 1] retry_i = (Some k, found)"
    by (metis prod.collapse)
  from k have "k - 1 \<noteq> retries" by simp
  with rl row Cons.IH show ?case by (simp add: Let_def)
qed

text \<open>
  C2. With a positive retry bound the function returns a dictionary for every station
  table and every behaviour of the lookup: the test \<open>(retry_i - 1) == retries\<close> is never
  true, so \<open>RecursionError\<close> is never raised.
\<close>

lemma get_zip_code_by_coordenates_returns:
  "0 < retries \<Longrightarrow> \<exists>d. get_zip_code_by_coordenates get_zip_code df_stations retries = Inr d"
  unfolding get_zip_code_by_coordenates_def by (rule station_loop_returns)

text \<open>
  C2. One station whose lookup raises on each of the five attempts: the call returns the
  empty dictionary and raises nothing.
\<close>

theorem get_zip_code_by_coordenates_exhausted:
  "get_zip_code_by_coordenates always_raises [(Some 34.05, Some (-118.24))] 5 = Inr Map.empty"
  by (simp add: get_zip_code_by_coordenates_def always_raises_def upto.simps)

subsection \<open>The feature engine\<close>

lemma month_from_march_range: "1 \<le> month_from_march d \<and> month_from_march d \<le> 12"
  unfolding month_from_march_def by (auto split: if_splits)

lemma dt_month_range: "1 \<le> dt_month t \<and> dt_month t \<le> 12"
  unfolding dt_month_def civil_from_days_def Let_def snd_conv
  by (rule month_from_march_range)

lemma month_to_season_total:
  assumes "1 \<le> m" "m \<le> 12"
  shows "map_of month_to_season m =
     Some (if m = 12 \<or> m = 1 \<or> m = 2 then ''Winter''
           else if 3 \<le> m \<and> m \<le> 5 then ''Spring''
           else if 6 \<le> m \<and> m \<le> 8 then ''Summer'' else ''Autumn'')"
proof -
  from assms have "m = 1 \<or> m = 2 \<or> m = 3 \<or> m = 4 \<or> m = 5 \<or> m = 6 \<or> m = 7 \<or> m = 8
      \<or> m = 9 \<or> m = 10 \<or> m = 11 \<or> m = 12" by arith
  then show ?thesis by (elim disjE) (simp_all add: month_to_season_def)
qed

lemma haversine_nonneg: "haversine a b c d = Some x \<Longrightarrow> 0 \<le> x"
  unfolding haversine_def Let_def
  by (auto split: if_splits intro!: mult_nonneg_nonneg arcsin_nonneg)

lemma derive_fields:
  "start_time (derive (t, s, e)) = parse_time (start_time t)"
  "end_time (derive (t, s, e)) = parse_time (end_time t)"
  "duration (derive (t, s, e)) = duration_seconds (parse_time (start_time t)) (parse_time (end_time t))"
  "month (derive (t, s, e)) = map_option dt_month (parse_time (start_time t))"
  "season (derive (t, s, e)) =
     (case map_option dt_month (parse_time (start_time t)) of None \<Rightarrow> None
      | Some m \<Rightarrow> map_of month_to_season m)"
  "distance_km (derive (t, s, e)) = haversine_vectorized s e"
  "station_start (derive (t, s, e)) = s"
  "station_end (derive (t, s, e)) = e"
  "average_speed_kmh (derive (t, s, e)) =
     speed_kmh (haversine_vectorized s e)
       (duration_seconds (parse_time (start_time t)) (parse_time (end_time t)))"
  by (simp_all add: derive_def Let_def)

lemma add_distance_category_fields:
  "start_time (add_distance_category r) = start_time r"
  "end_time (add_distance_category r) = end_time r"
  "duration (add_distance_category r) = duration r"
  "month (add_distance_category r) = month r"
  "season (add_distance_category r) = season r"
  "distance_km (add_distance_category r) = distance_km r"
  "station_start (add_distance_category r) = station_start r"
  "station_end (add_distance_category r) = station_end r"
  "average_speed_kmh (add_distance_category r) = average_speed_kmh r"
  by (simp_all add: add_distance_category_def)

lemma feature_rows:
  assumes "generate_trips_feature_engineering df_trip_month df_stations = Inr out"
  shows "set out = (\<lambda>row. add_distance_category (derive row)) `
            {row \<in> set (merge_stations df_trip_month df_stations).
               speed_limit_condition (average_speed_kmh (derive row))}"
proof -
  from assms have "out = map add_distance_category
      (filter (\<lambda>r. speed_limit_condition (average_speed_kmh r))
         (map derive (merge_stations df_trip_month df_stations)))"
    by (simp add: generate_trips_feature_engineering_def Let_def split: if_splits)
  then show ?thesis by (auto simp: filter_map comp_def)
qed

lemma speed_limit_condition_iff:
  "speed_limit_condition v \<longleftrightarrow> (\<exists>s. v = Some s \<and> s \<le> 50)"
  by (cases v) (simp_all add: speed_limit_condition_def)

lemma speed_kmh_Some:
  "speed_kmh d t = Some v \<Longrightarrow> \<exists>x y. d = Some x \<and> t = Some y \<and> y \<noteq> 0 \<and> v = x / y * 3600"
  by (auto simp: speed_kmh_def split: option.splits if_splits)

lemma duration_seconds_Some:
  "duration_seconds s e = Some y \<Longrightarrow> \<exists>a b. s = Some a \<and> e = Some b \<and> y = total_seconds (b - a)"
  by (auto simp: duration_seconds_def split: option.splits)

text \<open>
  C3. Every row of the features table has an average speed, computed from the haversine
  distance and the recomputed duration, of at most 50 km/h. A merged trip whose speed is
  above 50 is absent from the table, and one whose speed is at most 50 is in it: the
  bound is inclusive, a trip at exactly 50 km/h is kept.
\<close>

theorem speed_ceiling:
  assumes "generate_trips_feature_engineering df_trip_month df_stations = Inr out"
  shows "(\<forall>r \<in> set out. \<exists>v. average_speed_kmh r = Some v \<and> v \<le> 50 \<and>
            average_speed_kmh r = speed_kmh (distance_km r) (duration r) \<and>
            distance_km r = haversine_vectorized (station_start r) (station_end r) \<and>
            duration r = duration_seconds (start_time r) (end_time r)) \<and>
         (\<forall>row \<in> set (merge_stations df_trip_month df_stations). \<forall>v.
            average_speed_kmh (derive row) = Some v \<longrightarrow>
              (add_distance_category (derive row) \<in> set out \<longleftrightarrow> v \<le> 50))"
proof (intro conjI ballI allI impI)
  fix r assume "r \<in> set out"
  with feature_rows [OF assms] obtain row where
    r: "r = add_distance_category (derive row)"
    and ok: "speed_limit_condition (average_speed_kmh (derive row))" by blast
  obtain t s e where row: "row = (t, s, e)" by (cases row) auto
  from ok obtain v where "average_speed_kmh (derive row) = Some v" "v \<le> 50"
    by (auto simp: speed_limit_condition_iff)
  then show "\<exists>v. average_speed_kmh r = Some v \<and> v \<le> 50 \<and>
            average_speed_kmh r = speed_kmh (distance_km r) (duration r) \<and>
            distance_km r = haversine_vectorized (station_start r) (station_end r) \<and>
            duration r = duration_seconds (start_time r) (end_time r)"
    unfolding r row by (simp add: add_distance_category_fields derive_fields)
next
  fix row v
  assume row: "row \<in> set (merge_stations df_trip_month df_stations)"
    and v: "average_speed_kmh (derive row) = Some v"
  show "add_distance_category (derive row) \<in> set out \<longleftrightarrow> v \<le> 50"
  proof
    assume "add_distance_category (derive row) \<in> set out"
    with feature_rows [OF assms] obtain row' where
      eq: "add_distance_category (derive row) = add_distance_category (derive row')"
      and ok: "speed_limit_condition (average_speed_kmh (derive row'))" by blast
    from eq have "average_speed_kmh (derive row) = average_speed_kmh (derive row')"
      by (metis add_distance_category_fields(9))
    with ok v show "v \<le> 50" by (simp add: speed_limit_condition_def)
  next
    assume "v \<le> 50"
    with v have "speed_limit_condition (average_speed_kmh (derive row))"
      by (simp add: speed_limit_condition_def)
    with row feature_rows [OF assms] show "add_distance_category (derive row) \<in> set out"
      by blast
  qed
qed

text \<open>
  C7. Every row of the features table has a start time; its month is between 1 and 12 and
  its season is the entry of \<open>month_to_season\<close> for that month: Winter for 12, 1 and 2,
  Spring for 3 to 5, Summer for 6 to 8, Autumn for 9 to 11.
\<close>

theorem season_mapping:
  assumes "generate_trips_feature_engineering df_trip_month df_stations = Inr out"
    and "r \<in> set out"
  shows "\<exists>t. start_time r = Some t \<and> month r = Some (dt_month t) \<and>
           1 \<le> dt_month t \<and> dt_month t \<le> 12 \<and>
           season r = map_of month_to_season (dt_month t) \<and>
           season r = Some (if dt_month t = 12 \<or> dt_month t = 1 \<or> dt_month t = 2 then ''Winter''
                            else if 3 \<le> dt_month t \<and> dt_month t \<le> 5 then ''Spring''
                            else if 6 \<le> dt_month t \<and> dt_month t \<le> 8 then ''Summer''
                            else ''Autumn'')"
proof -
  from assms feature_rows [OF assms(1)] obtain row where
    r: "r = add_distance_category (derive row)"
    and ok: "speed_limit_condition (average_speed_kmh (derive row))" by blast
  obtain t s e where row: "row = (t, s, e)" by (cases row) auto
  from ok obtain v where "average_speed_kmh (derive row) = Some v"
    by (auto simp: speed_limit_condition_iff)
  then obtain y where "duration_seconds (parse_time (start_time t)) (parse_time (end_time t)) = Some y"
    unfolding row derive_fields by (blast dest: speed_kmh_Some)
  then obtain a where a: "parse_time (start_time t) = Some a"
    by (blast dest: duration_seconds_Some)
  have "start_time r = Some a" "month r = Some (dt_month a)"
    "season r = map_of month_to_season (dt_month a)"
    unfolding r row by (simp_all add: add_distance_category_fields derive_fields a)
  with dt_month_range [of a] month_to_season_total [of "dt_month a"] show ?thesis
    by simp
qed

lemma haversine_same_place: "haversine la lo la lo = Some 0"
  by (simp add: haversine_def Let_def)

lemma parseable_examples:
  "\<not> unparseable (start_time trip_slow)" "\<not> unparseable (end_time trip_slow)"
  "\<not> unparseable (start_time trip_fast)" "\<not> unparseable (end_time trip_fast)"
  by (simp_all add: unparseable_def trip_slow_def trip_fast_def)

lemma merged_trip_slow:
  "merge_stations [trip_slow] [station_a, station_b] = [(trip_slow, station_a, station_a)]"
  by (simp add: merge_stations_def trip_slow_def station_a_def station_b_def)

lemma speed_of_trip_slow:
  "average_speed_kmh (derive (trip_slow, station_a, station_a)) = Some 0"
  by (simp add: derive_fields trip_slow_def station_a_def haversine_vectorized_def
      haversine_same_place speed_kmh_def duration_seconds_def parse_time_def total_seconds_def)

lemma features_of_trip_slow:
  "generate_trips_feature_engineering [trip_slow] [station_a, station_b] =
     Inr [add_distance_category (derive (trip_slow, station_a, station_a))]"
  unfolding generate_trips_feature_engineering_def Let_def merged_trip_slow
  by (simp add: speed_of_trip_slow speed_limit_condition_def parseable_examples)

lemma civil_19700: "civil_from_days 19700 = (2023, 12)"
  by code_simp

lemma days_t0: "t0 div ns_per_day = 19700" "(t0 + 1500) div ns_per_day = 19700"
  by (simp_all add: t0_def ns_per_day_def)

lemma dt_month_t0:
  "dt_month t0 = 12" "dt_year t0 = 2023" "dt_month (t0 + 1500) = 12" "dt_year (t0 + 1500) = 2023"
  by (simp_all add: dt_month_def dt_year_def days_t0 civil_19700)

theorem season_mapping_witness:
  "\<exists>out r. generate_trips_feature_engineering [trip_slow] [station_a, station_b] = Inr out \<and>
      r \<in> set out \<and> start_time r = Some t0 \<and> month r = Some 12 \<and> season r = Some ''Winter''"
proof -
  let ?r = "add_distance_category (derive (trip_slow, station_a, station_a))"
  have mem: "?r \<in> set [?r]" by simp
  have st: "start_time ?r = Some t0"
    by (simp add: add_distance_category_fields derive_fields trip_slow_def parse_time_def)
  from season_mapping [OF features_of_trip_slow mem] st dt_month_t0
  have "month ?r = Some 12 \<and> season ?r = Some ''Winter''" by auto
  with features_of_trip_slow mem st show ?thesis by blast
qed

lemma merged_examples:
  "merge_stations [trip_slow, trip_fast] [station_a, station_b] =
     [(trip_slow, station_a, station_a), (trip_fast, station_a, station_b)]"
  by (simp add: merge_stations_def trip_slow_def trip_fast_def station_a_def station_b_def)

lemma haversine_half_turn: "haversine 0 0 0 180 = Some (6371 * pi)"
  by (simp add: haversine_def Let_def radians_def)

lemma speed_of_trip_fast:
  "average_speed_kmh (derive (trip_fast, station_a, station_b)) = Some (6371 * pi * 3600)"
  by (simp add: derive_fields trip_fast_def station_a_def station_b_def haversine_vectorized_def
      haversine_half_turn speed_kmh_def duration_seconds_def parse_time_def total_seconds_def)

text \<open>
  The witness of C3: of the two example trips the slow one is in the table, the fast one
  (some 20000 km in a second) is not.
\<close>

theorem speed_ceiling_witness:
  "\<exists>out. generate_trips_feature_engineering [trip_slow, trip_fast] [station_a, station_b] = Inr out \<and>
      list_all (\<lambda>r. \<exists>v. average_speed_kmh r = Some v \<and> v \<le> 50) out \<and>
      add_distance_category (derive (trip_slow, station_a, station_a)) \<in> set out \<and>
      add_distance_category (derive (trip_fast, station_a, station_b)) \<notin> set out"
proof -
  obtain out where out:
    "generate_trips_feature_engineering [trip_slow, trip_fast] [station_a, station_b] = Inr out"
    unfolding generate_trips_feature_engineering_def Let_def merged_examples
    by (simp add: parseable_examples)
  note th = speed_ceiling [OF out]
  from th have "list_all (\<lambda>r. \<exists>v. average_speed_kmh r = Some v \<and> v \<le> 50) out"
    unfolding list_all_iff by blast
  moreover from th speed_of_trip_slow
  have "add_distance_category (derive (trip_slow, station_a, station_a)) \<in> set out"
    unfolding merged_examples by simp
  moreover have "\<not> 6371 * pi * 3600 \<le> (50::real)" using pi_ge_two by linarith
  with th speed_of_trip_fast
  have "add_distance_category (derive (trip_fast, station_a, station_b)) \<notin> set out"
    unfolding merged_examples by simp
  ultimately show ?thesis using out by blast
qed

lemma speed_limit_boundary:
  "speed_limit_condition (Some 50)" "\<not> speed_limit_condition (Some (50 + 1 / 1000000))"
  by (simp_all add: speed_limit_condition_def)

subsection \<open>From the trip generators to the features table\<close>

lemma keep_ordered_rows:
  assumes "keep_ordered rows = Inr out" "r \<in> set out"
  shows "\<exists>a b. start_time r = Some a \<and> end_time r = Some b \<and> a < b"
proof -
  from assms have "start_quality_condition (start_time r) (end_time r)"
    by (auto simp: keep_ordered_def split: if_splits)
  then show ?thesis
    by (auto simp: start_quality_condition_def split: option.splits)
qed

lemma generate_trips_dataframe_rows:
  assumes "generate_trips_dataframe getrandbits df_metro df_capital sm bm sc bc = Inr df_trips"
    and "(u, r) \<in> set df_trips"
  shows "\<exists>a b. start_time r = Some a \<and> end_time r = Some b \<and> a < b"
proof -
  from assms(1) obtain dm dc where
    dm: "generate_metro_trips_dataframe df_metro sm bm = Inr dm"
    and dc: "generate_capital_trips_dataframe df_capital sc bc = Inr dc"
    and df: "df_trips = sort_key (\<lambda>(u, r). (na_last (start_time r), na_last (end_time r)))
        (zip (uuids getrandbits 4 (length (dm @ dc)))
           (map (\<lambda>r. r \<lparr> member_type := homogenize_member_type (member_type r) \<rparr>) (dm @ dc)))"
    by (auto simp: generate_trips_dataframe_def Let_def split: sum.splits)
  from assms(2) df have "r \<in> set (map (\<lambda>r. r \<lparr> member_type := homogenize_member_type (member_type r) \<rparr>) (dm @ dc))"
    by (auto dest: set_zip_rightD)
  then obtain r0 where r0: "r0 \<in> set (dm @ dc)"
    and r: "r = r0 \<lparr> member_type := homogenize_member_type (member_type r0) \<rparr>"
    unfolding set_map by blast
  from r0 have "\<exists>a b. start_time r0 = Some a \<and> end_time r0 = Some b \<and> a < b"
  proof (simp only: set_append Un_iff, elim disjE)
    assume "r0 \<in> set dm"
    with dm show ?thesis
      unfolding generate_metro_trips_dataframe_def Let_def by (rule keep_ordered_rows)
  next
    assume "r0 \<in> set dc"
    with dc show ?thesis
      unfolding generate_capital_trips_dataframe_def Let_def by (rule keep_ordered_rows)
  qed
  then show ?thesis by (simp add: r)
qed

lemma write_times_rows:
  "c \<in> set (write_times r) \<Longrightarrow>
   \<exists>a b. start_time r = Some a \<and> end_time r = Some b \<and>
     start_time c = strftime a \<and> end_time c = strftime b"
  by (cases "start_time r"; cases "end_time r") (auto simp: write_times_def)

lemma trips_file_rows:
  assumes "c \<in> set (trips_file (map_trips_foreign_keys_to_uuids df_trips df_stations df_bikes) y m)"
  shows "\<exists>u r a b. (u, r) \<in> set df_trips \<and> start_time r = Some a \<and> end_time r = Some b \<and>
           start_time c = strftime a \<and> end_time c = strftime b"
proof -
  from assms obtain u r where ur: "(u, r) \<in> set df_trips"
    and c: "c \<in> set (write_times
        \<lparr> start_time = start_time r, end_time = end_time r, member_type = member_type r,
          duration = duration r, trip_uuid = u,
          start_station_uuid = map_dict (to_dict (map (\<lambda>s. (original_station_id s, station_uuid s)) df_stations)) (start_station_id r),
          end_station_uuid = map_dict (to_dict (map (\<lambda>s. (original_station_id s, station_uuid s)) df_stations)) (end_station_id r),
          bike_ref = map_dict (to_dict (map (\<lambda>b. (original_bike_id b, bike_uuid b)) df_bikes)) (bike_id r) \<rparr>)"
    by (auto simp: trips_file_def map_trips_foreign_keys_to_uuids_def Let_def)
  from write_times_rows [OF c] obtain a b where "start_time r = Some a" "end_time r = Some b"
    "start_time c = strftime a" "end_time c = strftime b"
    by auto
  with ur show ?thesis by blast
qed

lemma merge_stations_trip:
  "(t, s, e) \<in> set (merge_stations df_trip_month df_stations) \<Longrightarrow> t \<in> set df_trip_month"
  by (auto simp: merge_stations_def)

lemma strftime_mono: "a < b \<Longrightarrow> parse_time (strftime a) = Some (a div 1000 * 1000) \<and>
    parse_time (strftime b) = Some (b div 1000 * 1000) \<and> a div 1000 * 1000 \<le> b div 1000 * 1000"
  by (simp add: strftime_def parse_time_def zdiv_mono1)

text \<open>
  C4. Every row that the two trip generators return starts strictly before it ends. When
  such rows are mapped to surrogate keys, written to a monthly file (which cuts the times
  to microseconds) and fed to the feature engine, every row of the features table again
  starts strictly before it ends, and its recomputed duration is positive: two times that
  fall together after the cut give a zero duration, and the speed filter drops that row.
\<close>

theorem temporal_ordering:
  assumes "generate_trips_dataframe getrandbits df_metro df_capital sm bm sc bc = Inr df_trips"
    and "generate_trips_feature_engineering
           (trips_file (map_trips_foreign_keys_to_uuids df_trips df_stations df_bikes) y m)
           df_stations' = Inr out"
  shows "(\<forall>(u, r) \<in> set df_trips. \<exists>a b. start_time r = Some a \<and> end_time r = Some b \<and> a < b) \<and>
         (\<forall>r \<in> set out. \<exists>a b. start_time r = Some a \<and> end_time r = Some b \<and> a < b \<and>
             duration r = Some (total_seconds (b - a)) \<and> 0 < total_seconds (b - a))"
proof (intro conjI ballI)
  fix p assume "p \<in> set df_trips"
  then show "case p of (u, r) \<Rightarrow> \<exists>a b. start_time r = Some a \<and> end_time r = Some b \<and> a < b"
    using generate_trips_dataframe_rows [OF assms(1)] by (cases p) auto
next
  fix r assume "r \<in> set out"
  with feature_rows [OF assms(2)] obtain row where
    r: "r = add_distance_category (derive row)"
    and row: "row \<in> set (merge_stations
        (trips_file (map_trips_foreign_keys_to_uuids df_trips df_stations df_bikes) y m) df_stations')"
    and ok: "speed_limit_condition (average_speed_kmh (derive row))" by blast
  obtain t s e where tse: "row = (t, s, e)" by (cases row) auto
  from row tse have "t \<in> set (trips_file (map_trips_foreign_keys_to_uuids df_trips df_stations df_bikes) y m)"
    by (auto dest: merge_stations_trip)
  from trips_file_rows [OF this] obtain u r0 a b where
    r0: "(u, r0) \<in> set df_trips" "start_time r0 = Some a" "end_time r0 = Some b"
    and t: "start_time t = strftime a" "end_time t = strftime b" by blast
  from generate_trips_dataframe_rows [OF assms(1) r0(1)] r0 have "a < b" by simp
  note m = strftime_mono [OF this]
  from ok obtain v where "average_speed_kmh (derive row) = Some v"
    by (auto simp: speed_limit_condition_iff)
  then obtain d where d: "duration_seconds (parse_time (start_time t)) (parse_time (end_time t)) = Some d"
    and "d \<noteq> 0"
    unfolding tse derive_fields by (blast dest: speed_kmh_Some)
  with m t have ne: "b div 1000 * 1000 \<noteq> a div 1000 * 1000"
    by (auto simp: duration_seconds_def total_seconds_def)
  with m have lt: "a div 1000 * 1000 < b div 1000 * 1000" by simp
  have "start_time r = Some (a div 1000 * 1000)" "end_time r = Some (b div 1000 * 1000)"
    "duration r = Some (total_seconds (b div 1000 * 1000 - a div 1000 * 1000))"
    unfolding r tse using m t
    by (simp_all add: add_distance_category_fields derive_fields duration_seconds_def)
  moreover from lt have "0 < total_seconds (b div 1000 * 1000 - a div 1000 * 1000)"
    by (simp add: total_seconds_def)
  ultimately show "\<exists>a b. start_time r = Some a \<and> end_time r = Some b \<and> a < b \<and>
             duration r = Some (total_seconds (b - a)) \<and> 0 < total_seconds (b - a)"
    using lt by blast
qed

lemma example_trips:
  "generate_trips_dataframe example_getrandbits [metro_row_1, metro_row_2] []
       [station_a, station_b] [bike_1] [] [] =
     Inr [(4000, \<lparr> start_time = Some (t0 + 1500), end_time = Some (t0 + 600000000000),
       member_type = Some ''member'', duration = Some 600, trip_id = Some ''101'',
       start_station_id = Some 3005, end_station_id = Some 3005, bike_id = Some ''12345'',
       plan_duration = Some 1800, trip_route_category = Some ''Round Trip'' \<rparr>)]"
  by (simp add: generate_trips_dataframe_def generate_metro_trips_dataframe_def
      generate_capital_trips_dataframe_def keep_ordered_def drop_duplicates_def
      metro_row_1_def metro_row_2_def station_a_def station_b_def bike_1_def trackable_def
      isin_def astype_str_def str_of_def metro_trip_columns_def minutes_to_seconds_def parse_times_def
      parse_time_def unparseable_def start_quality_condition_def homogenize_member_type_def
      member_type_rules_def uuids_def example_getrandbits_def Let_def)

lemma strftime_t0:
  "strftime (t0 + 1500) = Text (t0 + 1000)"
  "strftime (t0 + 600000000000) = Text (t0 + 600000000000)"
  by (simp_all add: strftime_def t0_def ns_per_day_def)

lemma example_trips_file:
  "trips_file (map_trips_foreign_keys_to_uuids
       [(4000, \<lparr> start_time = Some (t0 + 1500), end_time = Some (t0 + 600000000000),
          member_type = Some ''member'', duration = Some 600, trip_id = Some ''101'',
          start_station_id = Some 3005, end_station_id = Some 3005, bike_id = Some ''12345'',
          plan_duration = Some 1800, trip_route_category = Some ''Round Trip'' \<rparr>)]
       [station_a, station_b] [bike_1]) 2023 12 =
     [\<lparr> start_time = Text (t0 + 1000), end_time = Text (t0 + 600000000000),
        member_type = Some ''member'', duration = Some 600, trip_uuid = 4000,
        start_station_uuid = Some 1, end_station_uuid = Some 1, bike_ref = Some 2000 \<rparr>]"
  by (simp add: trips_file_def map_trips_foreign_keys_to_uuids_def write_times_def in_month_def
      to_dict_def map_dict_def station_a_def station_b_def bike_1_def strftime_t0 dt_month_t0)

lemma example_features:
  "\<exists>r. generate_trips_feature_engineering
     [\<lparr> start_time = Text (t0 + 1000), end_time = Text (t0 + 600000000000),
        member_type = Some ''member'', duration = Some 600, trip_uuid = 4000,
        start_station_uuid = Some 1, end_station_uuid = Some 1, bike_ref = Some 2000 \<rparr>]
     [station_a, station_b] = Inr [r]"
  by (simp add: generate_trips_feature_engineering_def merge_stations_def
      station_a_def station_b_def derive_fields unparseable_def haversine_vectorized_def
      haversine_same_place speed_kmh_def duration_seconds_def parse_time_def total_seconds_def
      speed_limit_condition_def)

text \<open>
  The witness of C4: of the two example Metro rows the one that ends before it starts is
  dropped by the generator; the other reaches the features table of December 2023.
\<close>

theorem temporal_ordering_witness:
  "\<exists>df_trips out.
     generate_trips_dataframe example_getrandbits [metro_row_1, metro_row_2] []
       [station_a, station_b] [bike_1] [] [] = Inr df_trips \<and>
     generate_trips_feature_engineering
       (trips_file (map_trips_foreign_keys_to_uuids df_trips [station_a, station_b] [bike_1]) 2023 12)
       [station_a, station_b] = Inr out \<and>
     length df_trips = 1 \<and> length out = 1 \<and>
     list_all (\<lambda>(u, r). \<exists>a b. start_time r = Some a \<and> end_time r = Some b \<and> a < b) df_trips \<and>
     list_all (\<lambda>r. \<exists>a b. start_time r = Some a \<and> end_time r = Some b \<and> a < b \<and>
                 duration r = Some (total_seconds (b - a)) \<and> 0 < total_seconds (b - a)) out"
proof -
  from example_features obtain r where
    f: "generate_trips_feature_engineering
      (trips_file (map_trips_foreign_keys_to_uuids
         [(4000, \<lparr> start_time = Some (t0 + 1500), end_time = Some (t0 + 600000000000),
            member_type = Some ''member'', duration = Some 600, trip_id = Some ''101'',
            start_station_id = Some 3005, end_station_id = Some 3005, bike_id = Some ''12345'',
            plan_duration = Some 1800, trip_route_category = Some ''Round Trip'' \<rparr>)]
         [station_a, station_b] [bike_1]) 2023 12)
      [station_a, station_b] = Inr [r]"
    unfolding example_trips_file by blast
  from temporal_ordering [OF example_trips f] example_trips f show ?thesis
    unfolding list_all_iff by (intro exI conjI) (assumption | simp)+
qed

subsection \<open>Aggregation by key\<close>

lemma set_drop_duplicates [simp]: "set (drop_duplicates xs) = set xs"
  by (simp add: drop_duplicates_def)

lemma distinct_drop_duplicates [simp]: "distinct (drop_duplicates xs)"
  by (simp add: drop_duplicates_def)

lemma set_present: "set (present col) = {v. Some v \<in> set col}"
  by (force simp: present_def image_iff)

lemma present_map_Some [simp]: "present (map Some xs) = xs"
  by (simp add: present_def filter_map comp_def)

lemma mset_present: "mset col = mset col' \<Longrightarrow> mset (present col) = mset (present col')"
  unfolding present_def by (metis mset_filter mset_map)

lemma group_keys_set: "set col = set col' \<Longrightarrow> group_keys col = group_keys col'"
proof -
  assume "set col = set col'"
  then have "set (present col) = set (present col')" by (simp add: set_present)
  then show ?thesis
    unfolding group_keys_def by (metis sorted_list_of_set_sort_remdups)
qed

lemma set_group_keys [simp]: "set (group_keys col) = {v. Some v \<in> set col}"
  by (simp add: group_keys_def set_present)

lemma distinct_group_keys [simp]: "distinct (group_keys col)"
  by (simp add: group_keys_def)

lemma mode_mset:
  assumes "mset col = mset col'"
  shows "mode col = mode col'"
proof -
  let ?v = "present col" and ?w = "present col'"
  from assms have m: "mset ?v = mset ?w" by (rule mset_present)
  then have s: "set ?v = set ?w" by (rule mset_eq_setD)
  from m have c: "\<And>x. count_list ?v x = count_list ?w x" by (metis count_mset)
  have "filter (\<lambda>v. list_all (\<lambda>w. count_list ?v w \<le> count_list ?v v) ?v) ?v
      = filter (\<lambda>v. list_all (\<lambda>w. count_list ?w w \<le> count_list ?w v) ?w) ?v"
    by (simp add: list_all_iff s c)
  then have "set (filter (\<lambda>v. list_all (\<lambda>w. count_list ?v w \<le> count_list ?v v) ?v) ?v)
      = set (filter (\<lambda>v. list_all (\<lambda>w. count_list ?w w \<le> count_list ?w v) ?w) ?w)"
    using s by simp
  then show ?thesis
    unfolding mode_def Let_def by (metis sorted_list_of_set_sort_remdups)
qed

lemma safe_mode_mset: "mset col = mset col' \<Longrightarrow> safe_mode col = safe_mode col'"
  using mode_mset [of col col'] by (simp add: safe_mode_def)

lemma set_mode:
  "set (mode col) = {v \<in> set (present col).
      \<forall>w \<in> set (present col). count_list (present col) w \<le> count_list (present col) v}"
  by (auto simp: mode_def Let_def list_all_iff)

lemma mode_nonempty:
  assumes "present col \<noteq> []"
  shows "mode col \<noteq> []"
proof -
  let ?v = "present col"
  let ?C = "count_list ?v ` set ?v"
  from assms have fin: "finite ?C" and ne: "?C \<noteq> {}" by auto
  then have "Max ?C \<in> ?C" by (rule Max_in)
  then obtain v where v: "v \<in> set ?v" "count_list ?v v = Max ?C" by auto
  have "\<forall>w \<in> set ?v. count_list ?v w \<le> count_list ?v v"
    unfolding v(2) using fin by (auto intro: Max_ge)
  with v(1) have "v \<in> set (mode col)" by (simp add: set_mode)
  then show ?thesis by auto
qed

lemma safe_mode_None_iff: "safe_mode col = None \<longleftrightarrow> present col = []"
proof
  assume "safe_mode col = None"
  then have "mode col = []" by (simp add: safe_mode_def split: list.splits)
  then show "present col = []" using mode_nonempty by blast
next
  assume "present col = []"
  then show "safe_mode col = None" by (simp add: safe_mode_def mode_def)
qed

lemma present_empty_iff: "present col = [] \<longleftrightarrow> (\<forall>c \<in> set col. c = None)"
  by (auto simp: present_def filter_empty_conv)

lemma safe_mode_Some_iff:
  "safe_mode col = Some m \<longleftrightarrow>
     m \<in> set (present col) \<and>
     (\<forall>w \<in> set (present col). count_list (present col) w \<le> count_list (present col) m) \<and>
     (\<forall>w \<in> set (present col).
        (\<forall>u \<in> set (present col). count_list (present col) u \<le> count_list (present col) w) \<longrightarrow> m \<le> w)"
  (is "?L \<longleftrightarrow> ?R")
proof
  assume ?L
  then obtain rest where mr: "mode col = m # rest"
    by (auto simp: safe_mode_def split: list.splits)
  have srt: "sorted (mode col)" by (simp add: mode_def Let_def)
  from mr have "m \<in> set (mode col)" by simp
  moreover have "\<forall>w \<in> set (mode col). m \<le> w" using srt mr by auto
  ultimately show ?R unfolding set_mode by blast
next
  assume r: ?R
  then have mem: "m \<in> set (mode col)" by (simp add: set_mode)
  then obtain x rest where xr: "mode col = x # rest" by (cases "mode col") auto
  have srt: "sorted (mode col)" by (simp add: mode_def Let_def)
  with xr mem have "x \<le> m" by auto
  moreover have "x \<in> set (mode col)" using xr by simp
  with r have "m \<le> x" unfolding set_mode by blast
  ultimately have "x = m" by simp
  with xr show ?L by (simp add: safe_mode_def)
qed

subsection \<open>The bikes registry\<close>

lemma sort_remdups_set: "sort (remdups xs) = sorted_list_of_set (set xs)"
  by (simp add: sorted_list_of_set_sort_remdups)

lemma bikes_by_id_keys:
  "map fst (bikes_by_id df) =
     filter (\<lambda>k. 4 \<le> digit_count k) (sorted_list_of_set ((\<lambda>r. str_of (bike_id r)) ` set df))"
proof -
  have "set (map fst (map (\<lambda>(i, t). (str_of i, t))
      (drop_duplicates (map (\<lambda>r. (bike_id r, bike_type r)) df)))) = (\<lambda>r. str_of (bike_id r)) ` set df"
    by (auto simp: image_iff)
  then show ?thesis
    unfolding bikes_by_id_def Let_def sort_remdups_set
    by (simp add: filter_map comp_def case_prod_unfold)
qed

lemma length_with_uuids [simp]: "length (with_uuids g s xs) = length xs"
  by (simp add: with_uuids_def uuids_def)

lemma nth_with_uuids:
  "i < length xs \<Longrightarrow> with_uuids g s xs ! i =
     \<lparr> bike_uuid = g s i, original_bike_id = fst (xs ! i), bike_type_of = snd (xs ! i) \<rparr>"
  by (simp add: with_uuids_def uuids_def case_prod_unfold)

lemma with_uuids_ids: "map original_bike_id (with_uuids g s xs) = map fst xs"
  by (rule nth_equalityI) (simp_all add: nth_with_uuids)

lemma capital_bike_ids:
  "map original_bike_id (generate_capital_bikes_dataframe g df) =
     filter (\<lambda>k. 4 \<le> digit_count k) (sorted_list_of_set ((\<lambda>r. str_of (bike_id r)) ` set df))"
  by (simp add: generate_capital_bikes_dataframe_def with_uuids_ids comp_def case_prod_unfold
      bikes_by_id_keys [symmetric])

lemma metro_bike_ids:
  "map original_bike_id (generate_metro_bikes_dataframe g df) =
     filter (\<lambda>k. 4 \<le> digit_count k) (sorted_list_of_set ((\<lambda>r. str_of (bike_id r)) ` set df))"
  by (simp add: generate_metro_bikes_dataframe_def with_uuids_ids bikes_by_id_keys)

lemma unique_entry:
  "distinct (map f xs) \<Longrightarrow> y \<in> f ` set xs \<Longrightarrow> \<exists>b. filter (\<lambda>x. f x = y) xs = [b]"
proof (induction xs)
  case Nil
  then show ?case by simp
next
  case (Cons x xs)
  show ?case
  proof (cases "f x = y")
    case True
    from Cons.prems(1) have "f x \<notin> f ` set xs" by simp
    with True have "\<forall>z \<in> set xs. f z \<noteq> y" by blast
    then have "filter (\<lambda>x. f x = y) xs = []"
      by (simp add: filter_empty_conv)
    with True show ?thesis by simp
  next
    case False
    with Cons show ?thesis by auto
  qed
qed

lemma to_dict_last_table:
  assumes "distinct (map fst ys)" "(k, v) \<in> set ys"
  shows "to_dict (xs @ ys) k = Some v"
proof -
  from assms have "map_of (rev ys) k = Some v" by (simp add: rev_map [symmetric])
  then show ?thesis by (simp add: to_dict_def)
qed

lemma add_missing_bike_ids_placeholder:
  assumes "bike_id r = None" "bike_type r = Some ty"
    and "ty = ''classic_bike'' \<or> ty = ''electric_bike'' \<or> ty = ''docked_bike''"
  shows "bike_id (add_missing_bike_ids r) =
     Some (if ty = ''classic_bike'' then ''0000_classic''
           else if ty = ''electric_bike'' then ''0000_electric'' else ''0000_docked'')"
  using assms by (auto simp: add_missing_bike_ids_def Let_def)

lemma placeholder_digits:
  "digit_count ''0000_classic'' = 4" "digit_count ''0000_electric'' = 4"
  "digit_count ''0000_docked'' = 4"
  by (simp_all add: digit_count_def)

text \<open>
  C10 (amended). A Capital row without a bike id whose bike type is \<open>classic_bike\<close>,
  \<open>electric_bike\<close> or \<open>docked_bike\<close> gets the placeholder id of its type. The
  placeholder has exactly four digits, the Capital bikes registry has exactly one entry
  with that id, and every row without a bike id of that type is mapped, through the
  dictionary built from the combined bikes registry, to the surrogate id of that entry.
\<close>

theorem unknown_bike_placeholders:
  fixes df :: "'t raw_trip list" and df_metro :: "'t raw_trip list"
  assumes "r \<in> set df" "bike_id r = None" "bike_type r = Some ty"
    and "ty = ''classic_bike'' \<or> ty = ''electric_bike'' \<or> ty = ''docked_bike''"
  shows "\<exists>p b. p = (if ty = ''classic_bike'' then ''0000_classic''
                      else if ty = ''electric_bike'' then ''0000_electric'' else ''0000_docked'') \<and>
           digit_count p = 4 \<and>
           filter (\<lambda>b. original_bike_id b = p)
             (generate_capital_bikes_dataframe g (map add_missing_bike_ids df)) = [b] \<and>
           (\<forall>r' \<in> set df. bike_id r' = None \<and> bike_type r' = Some ty \<longrightarrow>
              bike_id (add_missing_bike_ids r') = Some p \<and>
              map_dict (to_dict (map (\<lambda>b. (original_bike_id b, bike_uuid b))
                  (generate_bikes_dataframe g df_metro (map add_missing_bike_ids df))))
                (bike_id (add_missing_bike_ids r')) = Some (bike_uuid b))"
proof -
  define p where "p = (if ty = ''classic_bike'' then ''0000_classic''
            else if ty = ''electric_bike'' then ''0000_electric'' else ''0000_docked'')"
  let ?dc = "map add_missing_bike_ids df"
  let ?bikes = "generate_capital_bikes_dataframe g ?dc"
  have fill: "bike_id (add_missing_bike_ids r') = Some p"
    if "bike_id r' = None" "bike_type r' = Some ty" for r' :: "'t raw_trip"
    unfolding p_def using that assms(4) by (rule add_missing_bike_ids_placeholder)
  have digits: "digit_count p = 4"
    unfolding p_def using assms(4) by (auto simp: placeholder_digits)
  have "str_of (bike_id (add_missing_bike_ids r)) = p"
    using fill [OF assms(2,3)] by (simp add: str_of_def)
  with assms(1) have "p \<in> (\<lambda>r. str_of (bike_id r)) ` set ?dc"
    by (metis (no_types, lifting) image_eqI image_set)
  with digits have mem: "p \<in> original_bike_id ` set ?bikes"
    unfolding set_map [symmetric] capital_bike_ids by simp
  have dist: "distinct (map original_bike_id ?bikes)"
    unfolding capital_bike_ids by simp
  from unique_entry [OF dist mem] obtain b where
    b: "filter (\<lambda>b. original_bike_id b = p) ?bikes = [b]" by auto
  then have "b \<in> set (filter (\<lambda>b. original_bike_id b = p) ?bikes)" by simp
  then have "b \<in> set ?bikes" "original_bike_id b = p" by simp_all
  then have bmem: "(p, bike_uuid b) \<in> set (map (\<lambda>b. (original_bike_id b, bike_uuid b)) ?bikes)"
    unfolding set_map by blast
  have dist': "distinct (map fst (map (\<lambda>b. (original_bike_id b, bike_uuid b)) ?bikes))"
    using dist by (simp add: comp_def)
  have look: "to_dict (map (\<lambda>b. (original_bike_id b, bike_uuid b))
      (generate_bikes_dataframe g df_metro ?dc)) p = Some (bike_uuid b)"
    unfolding generate_bikes_dataframe_def map_append
    using dist' bmem by (rule to_dict_last_table)
  have "\<forall>r' \<in> set df. bike_id r' = None \<and> bike_type r' = Some ty \<longrightarrow>
      bike_id (add_missing_bike_ids r') = Some p \<and>
      map_dict (to_dict (map (\<lambda>b. (original_bike_id b, bike_uuid b))
          (generate_bikes_dataframe g df_metro ?dc)))
        (bike_id (add_missing_bike_ids r')) = Some (bike_uuid b)"
    using fill look by (simp add: map_dict_def)
  with digits b show ?thesis
    unfolding p_def by blast
qed

theorem unknown_bike_placeholders_witness:
  "\<exists>b. digit_count ''0000_classic'' = 4 \<and>
     filter (\<lambda>b. original_bike_id b = ''0000_classic'')
       (generate_capital_bikes_dataframe example_getrandbits
          (map add_missing_bike_ids [capital_row_1, capital_row_2])) = [b] \<and>
     bike_id (add_missing_bike_ids capital_row_1) = Some ''0000_classic'' \<and>
     bike_id (add_missing_bike_ids capital_row_2) = Some ''0000_classic'' \<and>
     map_dict (to_dict (map (\<lambda>b. (original_bike_id b, bike_uuid b))
         (generate_bikes_dataframe example_getrandbits [metro_row_1]
            (map add_missing_bike_ids [capital_row_1, capital_row_2]))))
       (bike_id (add_missing_bike_ids capital_row_2)) = Some (bike_uuid b)"
proof -
  have h: "capital_row_1 \<in> set [capital_row_1, capital_row_2]"
    "bike_id capital_row_1 = None" "bike_type capital_row_1 = Some ''classic_bike''"
    "bike_id capital_row_2 = None" "bike_type capital_row_2 = Some ''classic_bike''"
    by (simp_all add: capital_row_1_def capital_row_2_def)
  from unknown_bike_placeholders [OF h(1,2,3), of example_getrandbits "[metro_row_1]"] h
  show ?thesis by auto
qed


lemma add_missing_bike_ids_untyped:
  "bike_type r = None \<Longrightarrow> add_missing_bike_ids r = r"
  by (simp add: add_missing_bike_ids_def)

lemma bikes_by_id_missing: "bike_id r = None \<Longrightarrow> bikes_by_id [r] = []"
  by (simp add: bikes_by_id_def drop_duplicates_def str_of_def digit_count_def)

lemma capital_row_untyped_fields:
  "bike_id capital_row_untyped = None" "bike_type capital_row_untyped = None"
  by (simp_all add: capital_row_untyped_def capital_row_1_def)

text \<open>
  C10 as stated fails for a row that has neither a bike id nor one of the three bike
  types: no assignment applies, the id stays missing, and the registry built from that row
  is empty (the string \<open>nan\<close> has no digit).
\<close>

theorem unknown_bike_without_type_counterexample:
  "bike_id capital_row_untyped = None \<and>
   bike_id (add_missing_bike_ids capital_row_untyped) = None \<and>
   generate_capital_bikes_dataframe example_getrandbits
     [add_missing_bike_ids capital_row_untyped] = ([] :: nat bike list)"
  by (simp add: add_missing_bike_ids_untyped capital_row_untyped_fields bikes_by_id_missing
      generate_capital_bikes_dataframe_def with_uuids_def uuids_def)

subsection \<open>The stations registry\<close>

lemma mset_drop_duplicates:
  "set xs = set ys \<Longrightarrow> mset (drop_duplicates xs) = mset (drop_duplicates ys)"
  using set_eq_iff_mset_eq_distinct [of "drop_duplicates xs" "drop_duplicates ys"] by simp

lemma bikes_by_id_set:
  assumes "set df = set df'"
  shows "bikes_by_id df = bikes_by_id df'"
proof -
  let ?L = "\<lambda>df. map (\<lambda>(i, t). (str_of i, t))
      (drop_duplicates (map (\<lambda>r. (bike_id r, bike_type r)) df))"
  from assms have "set (map (\<lambda>r. (bike_id r, bike_type r)) df)
      = set (map (\<lambda>r. (bike_id r, bike_type r)) df')" by simp
  then have "mset (drop_duplicates (map (\<lambda>r. (bike_id r, bike_type r)) df))
      = mset (drop_duplicates (map (\<lambda>r. (bike_id r, bike_type r)) df'))"
    by (rule mset_drop_duplicates)
  then have m: "mset (?L df) = mset (?L df')" by simp
  then have "set (?L df) = set (?L df')" by (rule mset_eq_setD)
  then have "set (map fst (?L df)) = set (map fst (?L df'))" by (simp only: set_map)
  then have keys: "sort (remdups (map fst (?L df))) = sort (remdups (map fst (?L df')))"
    by (simp only: sort_remdups_set)
  have grp: "safe_mode (map snd (filter (\<lambda>(i, t). i = k) (?L df)))
      = safe_mode (map snd (filter (\<lambda>(i, t). i = k) (?L df')))" for k
  proof (rule safe_mode_mset)
    show "mset (map snd (filter (\<lambda>(i, t). i = k) (?L df)))
      = mset (map snd (filter (\<lambda>(i, t). i = k) (?L df')))"
      using m by (simp only: mset_map mset_filter)
  qed
  show ?thesis
    unfolding bikes_by_id_def Let_def keys grp ..
qed

lemma agg_stations_ids:
  "map station_id (agg_stations key rows) = group_keys (map (\<lambda>r. key (station_id r)) rows)"
  by (simp add: agg_stations_def comp_def Let_def)

lemma safe_mode_presentD:
  "safe_mode (map f g) \<noteq> None \<Longrightarrow> \<exists>x \<in> set g. f x \<noteq> None"
  by (auto simp: safe_mode_None_iff present_empty_iff)

lemma safe_mode_presentI:
  "x \<in> set g \<Longrightarrow> f x \<noteq> None \<Longrightarrow> safe_mode (map f g) \<noteq> None"
  by (auto simp: safe_mode_None_iff present_empty_iff)

lemma agg_stations_located:
  "{station_id r | r. r \<in> set (agg_stations key rows) \<and> lat r \<noteq> None \<and> lon r \<noteq> None} =
   {k. (\<exists>x \<in> set rows. key (station_id x) = Some k \<and> lat x \<noteq> None) \<and>
       (\<exists>x \<in> set rows. key (station_id x) = Some k \<and> lon x \<noteq> None)}"
  (is "?A = ?B")
proof (intro set_eqI iffI)
  fix k assume "k \<in> ?A"
  then obtain r where r: "r \<in> set (agg_stations key rows)" "station_id r = k"
    "lat r \<noteq> None" "lon r \<noteq> None" by blast
  let ?g = "filter (\<lambda>x. key (station_id x) = Some k) rows"
  from r(1,2) have "lat r = safe_mode (map lat ?g)" "lon r = safe_mode (map lon ?g)"
    by (auto simp: agg_stations_def Let_def)
  with r(3,4) have la: "safe_mode (map lat ?g) \<noteq> None" and lo: "safe_mode (map lon ?g) \<noteq> None"
    by simp_all
  from safe_mode_presentD [OF la] safe_mode_presentD [OF lo]
  show "k \<in> ?B" by auto
next
  fix k assume k: "k \<in> ?B"
  let ?g = "filter (\<lambda>x. key (station_id x) = Some k) rows"
  let ?r = "\<lparr> station_id = k, lat = safe_mode (map lat ?g), lon = safe_mode (map lon ?g),
     name = first_valid (map name ?g) \<rparr>"
  from k have "Some k \<in> set (map (\<lambda>r. key (station_id r)) rows)" by force
  then have mem: "?r \<in> set (agg_stations key rows)"
    by (simp add: agg_stations_def Let_def image_iff)
  from k obtain x y where x: "x \<in> set ?g" "lat x \<noteq> None" and y: "y \<in> set ?g" "lon y \<noteq> None"
    by auto
  have "safe_mode (map lat ?g) \<noteq> None" using x by (rule safe_mode_presentI)
  moreover have "safe_mode (map lon ?g) \<noteq> None" using y by (rule safe_mode_presentI)
  ultimately have "lat ?r \<noteq> None" "lon ?r \<noteq> None" by simp_all
  with mem have "\<exists>r. station_id ?r = station_id r \<and> r \<in> set (agg_stations key rows) \<and>
      lat r \<noteq> None \<and> lon r \<noteq> None" by blast
  then show "k \<in> ?A" by simp
qed

lemma combine_terminals_ids:
  "map station_id (combine_terminals su eu) =
     sorted_list_of_set
       ({station_id r | r. r \<in> set su \<and> lat r \<noteq> None \<and> lon r \<noteq> None} \<union>
        {station_id r | r. r \<in> set eu \<and> lat r \<noteq> None \<and> lon r \<noteq> None})"
proof -
  let ?c = "filter (\<lambda>r. lat r \<noteq> None \<and> lon r \<noteq> None) (drop_duplicates (su @ eu))"
  have "map station_id (combine_terminals su eu) = group_keys (map Some (map station_id ?c))"
    by (simp add: combine_terminals_def agg_stations_ids comp_def)
  also have "\<dots> = sorted_list_of_set (set (map station_id ?c))"
    by (simp only: group_keys_def present_map_Some sort_remdups_set)
  also have "set (map station_id ?c) =
       {station_id r | r. r \<in> set su \<and> lat r \<noteq> None \<and> lon r \<noteq> None} \<union>
       {station_id r | r. r \<in> set eu \<and> lat r \<noteq> None \<and> lon r \<noteq> None}"
    by auto
  finally show ?thesis .
qed

lemma metro_unique_located:
  "{station_id r | r. r \<in> set (get_metro_unique_stations rows) \<and> lat r \<noteq> None \<and> lon r \<noteq> None} =
   {k. (\<exists>x \<in> set rows. station_id x = Some k \<and> lat x \<noteq> None) \<and>
       (\<exists>x \<in> set rows. station_id x = Some k \<and> lon x \<noteq> None)}"
  unfolding get_metro_unique_stations_def agg_stations_located by simp

lemma set_station_columns:
  "set (map fst (station_columns df)) = start_mention ` set df"
  "set (map snd (station_columns df)) = end_mention ` set df"
  by (auto simp: station_columns_def image_iff)

lemma metro_station_ids_set:
  assumes "set df = set df'"
  shows "map station_id (combine_terminals
            (get_metro_unique_stations (map fst (station_columns df)))
            (get_metro_unique_stations (map snd (station_columns df)))) =
         map station_id (combine_terminals
            (get_metro_unique_stations (map fst (station_columns df')))
            (get_metro_unique_stations (map snd (station_columns df'))))"
  unfolding combine_terminals_ids metro_unique_located set_station_columns assms ..

lemma length_rectify_coordinates [simp]:
  "length (rectify_coordinates rows a b c) = length rows"
  by (simp add: rectify_coordinates_def)

lemma ids_rectify_coordinates [simp]:
  "map station_id (rectify_coordinates rows a b c) = map station_id rows"
  by (simp add: rectify_coordinates_def comp_def)

lemma nth_rectify_coordinates_id [simp]:
  "i < length rows \<Longrightarrow> station_id (rectify_coordinates rows a b c ! i) = station_id (rows ! i)"
  by (simp add: rectify_coordinates_def)

lemma finish_stations_ids:
  "\<exists>stations. finish_stations g z seed_value city_name a b rows = Inr stations \<and>
     map (\<lambda>s. (original_station_id s, station_uuid s)) stations =
       zip (map station_id rows) (uuids g seed_value (length rows))"
proof -
  let ?rows = "rectify_coordinates rows a b 3"
  obtain d where d: "get_zip_code_by_coordenates z (map (\<lambda>r. (lat r, lon r)) ?rows) 5 = Inr d"
    using get_zip_code_by_coordenates_returns [of 5 z "map (\<lambda>r. (lat r, lon r)) ?rows"] by auto
  let ?st = "map (\<lambda>(i, u, r).
      \<lparr> station_uuid = u, original_station_id = station_id r, latitude = lat r,
        longitude = lon r, station_name = name r, city = city_name,
        zip_code = (case d i of None \<Rightarrow> None | Some z \<Rightarrow> z) \<rparr>)
      (zip [0 ..< length ?rows] (zip (uuids g seed_value (length ?rows)) ?rows))"
  have eq: "finish_stations g z seed_value city_name a b rows = Inr ?st"
    by (simp add: finish_stations_def Let_def d)
  have "map (\<lambda>s. (original_station_id s, station_uuid s)) ?st =
      zip (map station_id ?rows) (uuids g seed_value (length ?rows))"
    by (rule nth_equalityI) (simp_all add: uuids_def)
  with eq show ?thesis by simp
qed

text \<open>
  C6 (amended). For two operator tables that are permutations of each other, the Metro
  bikes registry and the Capital bikes registry are equal, and the Metro station generator
  returns, whatever the reverse geocoding does in either run, registries that assign the
  same surrogate id to the same natural ids. Running a generator twice on one table is
  the case of the identical permutation.
\<close>

theorem surrogate_ids_order_independent:
  assumes "mset df = mset df'"
  shows "generate_metro_bikes_dataframe g df = generate_metro_bikes_dataframe g df' \<and>
         generate_capital_bikes_dataframe g df = generate_capital_bikes_dataframe g df' \<and>
         (\<exists>st st'. generate_metro_stations_dataframe g z df = Inr st \<and>
            generate_metro_stations_dataframe g z' df' = Inr st' \<and>
            map (\<lambda>s. (original_station_id s, station_uuid s)) st =
            map (\<lambda>s. (original_station_id s, station_uuid s)) st')"
proof -
  from assms have s: "set df = set df'" by (rule mset_eq_setD)
  have b: "bikes_by_id df = bikes_by_id df'" using s by (rule bikes_by_id_set)
  let ?c = "\<lambda>df. combine_terminals
      (get_metro_unique_stations (map fst (station_columns df)))
      (get_metro_unique_stations (map snd (station_columns df)))"
  have ids: "map station_id (?c df) = map station_id (?c df')"
    using s by (rule metro_station_ids_set)
  then have len: "length (?c df) = length (?c df')" by (rule map_eq_imp_length_eq)
  obtain st where st: "finish_stations g z 0 ''Los Angeles'' 34.059753 (- 118.2375) (?c df) = Inr st"
    "map (\<lambda>s. (original_station_id s, station_uuid s)) st =
       zip (map station_id (?c df)) (uuids g 0 (length (?c df)))"
    using finish_stations_ids by blast
  obtain st' where st': "finish_stations g z' 0 ''Los Angeles'' 34.059753 (- 118.2375) (?c df') = Inr st'"
    "map (\<lambda>s. (original_station_id s, station_uuid s)) st' =
       zip (map station_id (?c df')) (uuids g 0 (length (?c df')))"
    using finish_stations_ids by blast
  from st(2) st'(2) ids len
  have "map (\<lambda>s. (original_station_id s, station_uuid s)) st =
        map (\<lambda>s. (original_station_id s, station_uuid s)) st'" by simp
  with st(1) st'(1) b show ?thesis
    by (simp add: generate_metro_bikes_dataframe_def generate_capital_bikes_dataframe_def
        generate_metro_stations_dataframe_def Let_def)
qed

lemma safe_mode_first_mode: "safe_mode col = Some m \<longleftrightarrow> first_mode (present col) m"
  unfolding first_mode_def by (rule safe_mode_Some_iff)

lemma agg_stations_row:
  assumes "r \<in> set (agg_stations key rows)"
  shows "lat r = safe_mode (map lat (filter (\<lambda>x. key (station_id x) = Some (station_id r)) rows))"
    and "lon r = safe_mode (map lon (filter (\<lambda>x. key (station_id x) = Some (station_id r)) rows))"
    and "\<exists>x \<in> set rows. key (station_id x) = Some (station_id r)"
  using assms by (auto simp: agg_stations_def Let_def)

lemma metro_unique_row:
  assumes "r \<in> set (get_metro_unique_stations rows)"
  shows "lat r = safe_mode (map lat (terminal_candidates rows (station_id r)))"
    and "lon r = safe_mode (map lon (terminal_candidates rows (station_id r)))"
proof -
  let ?s = "sort_key (\<lambda>r. na_last (station_id r)) (drop_duplicates rows)"
  let ?P = "\<lambda>x. id (station_id x) = Some (station_id r)"
  from assms have r: "r \<in> set (agg_stations id ?s)"
    by (simp add: get_metro_unique_stations_def)
  have m: "mset (filter ?P ?s) = mset (terminal_candidates rows (station_id r))"
    by (simp add: terminal_candidates_def)
  have "mset (map lat (filter ?P ?s)) = mset (map lat (terminal_candidates rows (station_id r)))"
    using m by (simp only: mset_map)
  then show "lat r = safe_mode (map lat (terminal_candidates rows (station_id r)))"
    using agg_stations_row(1) [OF r] safe_mode_mset by metis
  have "mset (map lon (filter ?P ?s)) = mset (map lon (terminal_candidates rows (station_id r)))"
    using m by (simp only: mset_map)
  then show "lon r = safe_mode (map lon (terminal_candidates rows (station_id r)))"
    using agg_stations_row(2) [OF r] safe_mode_mset by metis
qed

lemma combine_terminals_row:
  assumes "r \<in> set (combine_terminals
      (get_metro_unique_stations (map fst (station_columns df)))
      (get_metro_unique_stations (map snd (station_columns df))))"
  shows "\<exists>la lo. lat r = Some la \<and> lon r = Some lo \<and>
      first_mode (present (map lat (resolved_candidates df (station_id r)))) la \<and>
      first_mode (present (map lon (resolved_candidates df (station_id r)))) lo"
proof -
  let ?c = "filter (\<lambda>r. lat r \<noteq> None \<and> lon r \<noteq> None)
      (drop_duplicates (get_metro_unique_stations (map fst (station_columns df)) @
                        get_metro_unique_stations (map snd (station_columns df))))"
  from assms have r: "r \<in> set (agg_stations Some ?c)" by (simp add: combine_terminals_def)
  have g: "filter (\<lambda>x. Some (station_id x) = Some (station_id r)) ?c = resolved_candidates df (station_id r)"
    by (simp add: resolved_candidates_def)
  note la = agg_stations_row(1) [OF r, unfolded g] and lo = agg_stations_row(2) [OF r, unfolded g]
  from agg_stations_row(3) [OF r] obtain x where x: "x \<in> set (resolved_candidates df (station_id r))"
    unfolding g [symmetric] by auto
  then have xl: "lat x \<noteq> None" and xo: "lon x \<noteq> None"
    by (auto simp: resolved_candidates_def)
  have "safe_mode (map lat (resolved_candidates df (station_id r))) \<noteq> None"
    using x xl by (rule safe_mode_presentI)
  moreover have "safe_mode (map lon (resolved_candidates df (station_id r))) \<noteq> None"
    using x xo by (rule safe_mode_presentI)
  ultimately obtain a b where ab: "lat r = Some a" "lon r = Some b" using la lo by auto
  from la lo ab have "safe_mode (map lat (resolved_candidates df (station_id r))) = Some a"
    "safe_mode (map lon (resolved_candidates df (station_id r))) = Some b" by simp_all
  then have "first_mode (present (map lat (resolved_candidates df (station_id r)))) a"
    "first_mode (present (map lon (resolved_candidates df (station_id r)))) b"
    by (simp_all only: safe_mode_first_mode)
  with ab show ?thesis by blast
qed

lemma finish_stations_row:
  assumes "finish_stations g z seed_value city_name a b rows = Inr stations" "s \<in> set stations"
  shows "\<exists>r \<in> set rows. original_station_id s = station_id r \<and>
      latitude s = rectify a 3 (lat r) \<and> longitude s = rectify b 3 (lon r)"
proof -
  let ?rows = "rectify_coordinates rows a b 3"
  from assms obtain i u r where "(i, u, r) \<in> set (zip [0 ..< length ?rows]
      (zip (uuids g seed_value (length ?rows)) ?rows))"
    and s: "original_station_id s = station_id r" "latitude s = lat r" "longitude s = lon r"
    by (auto simp: finish_stations_def Let_def split: sum.splits)
  then have "r \<in> set ?rows" by (auto dest!: set_zip_rightD)
  then obtain r0 where "r0 \<in> set rows"
    "r = r0 \<lparr> lat := rectify a 3 (lat r0), lon := rectify b 3 (lon r0) \<rparr>"
    by (auto simp: rectify_coordinates_def)
  with s show ?thesis by auto
qed

text \<open>
  C5 (amended). The latitude of a station of the Metro registry is the sign-rectified
  first mode (the smallest of the most frequent values) of the latitudes of its resolved
  candidates, and likewise its longitude. The candidates are the distinct results of the
  start end and of the end end of the trips; each such result carries the first mode of
  the latitudes, and of the longitudes, of the distinct (id, lat, lon, name) rows of that
  end with this id. Repeated identical mentions count once.
\<close>

theorem resolved_coordinates:
  assumes "generate_metro_stations_dataframe g z df = Inr stations" and "s \<in> set stations"
  shows "(\<exists>la lo. latitude s = rectify 34.059753 3 (Some la) \<and>
            longitude s = rectify (- 118.2375) 3 (Some lo) \<and>
            first_mode (present (map lat (resolved_candidates df (original_station_id s)))) la \<and>
            first_mode (present (map lon (resolved_candidates df (original_station_id s)))) lo) \<and>
         (\<forall>r \<in> set (get_metro_unique_stations rows). \<forall>m.
            (lat r = Some m \<longrightarrow>
               first_mode (present (map lat (terminal_candidates rows (station_id r)))) m) \<and>
            (lon r = Some m \<longrightarrow>
               first_mode (present (map lon (terminal_candidates rows (station_id r)))) m))"
proof (intro conjI ballI allI)
  from assms have "finish_stations g z 0 ''Los Angeles'' 34.059753 (- 118.2375)
      (combine_terminals
        (get_metro_unique_stations (map fst (station_columns df)))
        (get_metro_unique_stations (map snd (station_columns df)))) = Inr stations"
    by (simp add: generate_metro_stations_dataframe_def Let_def)
  from finish_stations_row [OF this assms(2)] obtain r where
    r: "r \<in> set (combine_terminals
        (get_metro_unique_stations (map fst (station_columns df)))
        (get_metro_unique_stations (map snd (station_columns df))))"
    and s: "original_station_id s = station_id r" "latitude s = rectify 34.059753 3 (lat r)"
      "longitude s = rectify (- 118.2375) 3 (lon r)" by blast
  from combine_terminals_row [OF r] obtain la lo where
    "lat r = Some la" "lon r = Some lo"
    "first_mode (present (map lat (resolved_candidates df (station_id r)))) la"
    "first_mode (present (map lon (resolved_candidates df (station_id r)))) lo" by blast
  with s show "\<exists>la lo. latitude s = rectify 34.059753 3 (Some la) \<and>
            longitude s = rectify (- 118.2375) 3 (Some lo) \<and>
            first_mode (present (map lat (resolved_candidates df (original_station_id s)))) la \<and>
            first_mode (present (map lon (resolved_candidates df (original_station_id s)))) lo"
    by metis
next
  fix r m assume "r \<in> set (get_metro_unique_stations rows)"
  from metro_unique_row [OF this]
  show "lat r = Some m \<longrightarrow>
          first_mode (present (map lat (terminal_candidates rows (station_id r)))) m"
    and "lon r = Some m \<longrightarrow>
          first_mode (present (map lon (terminal_candidates rows (station_id r)))) m"
    by (simp_all add: safe_mode_first_mode)
qed

lemma registry_seen_twice_low:
  "generate_metro_stations_dataframe example_getrandbits always_raises seen_twice_low =
   Inr [\<lparr>station_uuid = 0, original_station_id = 3005, latitude = Some 1,
         longitude = Some 1, station_name = Some ''A'',
         city = ''Los Angeles'', zip_code = None\<rparr>,
      \<lparr>station_uuid = 1, original_station_id = 3006, latitude = Some 5,
         longitude = Some 5, station_name = Some ''A'',
         city = ''Los Angeles'', zip_code = None\<rparr>,
      \<lparr>station_uuid = 2, original_station_id = 3007, latitude = Some 6,
         longitude = Some 6, station_name = Some ''A'',
         city = ''Los Angeles'', zip_code = None\<rparr>]"
  by code_simp

lemma mentions_seen_twice_low:
  "endpoint_mentions seen_twice_low 3005 = [(Some 1, Some 1), (Some 1, Some 1), (Some 2, Some 2)]"
  by code_simp

text \<open>
  The witness of C5, on the example of the claim: station 3005 mentioned with (1, 1) twice
  and with (2, 2) once resolves to (1, 1).
\<close>

theorem resolved_coordinates_witness:
  "\<exists>stations s la lo.
     generate_metro_stations_dataframe example_getrandbits always_raises seen_twice_low = Inr stations \<and>
     s \<in> set stations \<and> original_station_id s = 3005 \<and>
     endpoint_mentions seen_twice_low 3005 = [(Some 1, Some 1), (Some 1, Some 1), (Some 2, Some 2)] \<and>
     latitude s = Some 1 \<and> longitude s = Some 1 \<and>
     latitude s = rectify 34.059753 3 (Some la) \<and>
     longitude s = rectify (- 118.2375) 3 (Some lo) \<and>
     first_mode (present (map lat (resolved_candidates seen_twice_low 3005))) la \<and>
     first_mode (present (map lon (resolved_candidates seen_twice_low 3005))) lo"
proof -
  let ?s = "\<lparr>station_uuid = 0, original_station_id = 3005, latitude = Some 1,
         longitude = Some 1, station_name = Some ''A'',
         city = ''Los Angeles'', zip_code = None\<rparr> :: (nat, string option) station"
  have mem: "?s \<in> set [?s,
      \<lparr>station_uuid = 1, original_station_id = 3006, latitude = Some 5,
         longitude = Some 5, station_name = Some ''A'',
         city = ''Los Angeles'', zip_code = None\<rparr>,
      \<lparr>station_uuid = 2, original_station_id = 3007, latitude = Some 6,
         longitude = Some 6, station_name = Some ''A'',
         city = ''Los Angeles'', zip_code = None\<rparr>]" by simp
  from resolved_coordinates [OF registry_seen_twice_low mem, THEN conjunct1] obtain la lo where
    th: "latitude ?s = rectify 34.059753 3 (Some la)"
    "longitude ?s = rectify (- 118.2375) 3 (Some lo)"
    "first_mode (present (map lat (resolved_candidates seen_twice_low (original_station_id ?s)))) la"
    "first_mode (present (map lon (resolved_candidates seen_twice_low (original_station_id ?s)))) lo"
    by blast
  have f: "original_station_id ?s = 3005" "latitude ?s = Some 1" "longitude ?s = Some 1"
    by simp_all
  have fm: "first_mode (present (map lat (resolved_candidates seen_twice_low 3005))) la"
    "first_mode (present (map lon (resolved_candidates seen_twice_low 3005))) lo"
    using th(3,4) unfolding f(1) by simp_all
  from registry_seen_twice_low mem f mentions_seen_twice_low th(1,2) fm show ?thesis
    by blast
qed

text \<open>
  C5 as stated fails: station 3005 is mentioned with (2, 2) twice and with (1, 1) once, the
  most frequent latitude and longitude among its mentions are 2 and 2, and the registry
  resolves it to (1, 1).
\<close>

theorem most_frequent_mention_counterexample:
  "endpoint_mentions seen_twice_high 3005 = [(Some 2, Some 2), (Some 2, Some 2), (Some 1, Some 1)] \<and>
   safe_mode (map fst (endpoint_mentions seen_twice_high 3005)) = Some 2 \<and>
   safe_mode (map snd (endpoint_mentions seen_twice_high 3005)) = Some 2 \<and>
   generate_metro_stations_dataframe example_getrandbits always_raises seen_twice_high =
   Inr [\<lparr>station_uuid = 0, original_station_id = 3005, latitude = Some 1,
         longitude = Some 1, station_name = Some ''A'',
         city = ''Los Angeles'', zip_code = None\<rparr>,
      \<lparr>station_uuid = 1, original_station_id = 3006, latitude = Some 5,
         longitude = Some 5, station_name = Some ''A'',
         city = ''Los Angeles'', zip_code = None\<rparr>,
      \<lparr>station_uuid = 2, original_station_id = 3007, latitude = Some 6,
         longitude = Some 6, station_name = Some ''A'',
         city = ''Los Angeles'', zip_code = None\<rparr>]"
  by (intro conjI; code_simp)

text \<open>The witness of C6: the two example Metro rows in both orders.\<close>

theorem surrogate_ids_order_independent_witness:
  "mset [metro_row_1, metro_row_2] = mset [metro_row_2, metro_row_1] \<and>
   generate_metro_bikes_dataframe example_getrandbits [metro_row_1, metro_row_2] =
     generate_metro_bikes_dataframe example_getrandbits [metro_row_2, metro_row_1] \<and>
   generate_capital_bikes_dataframe example_getrandbits [metro_row_1, metro_row_2] =
     generate_capital_bikes_dataframe example_getrandbits [metro_row_2, metro_row_1] \<and>
   (\<exists>st st'. generate_metro_stations_dataframe example_getrandbits always_raises
         [metro_row_1, metro_row_2] = Inr st \<and>
      generate_metro_stations_dataframe example_getrandbits always_raises
         [metro_row_2, metro_row_1] = Inr st' \<and>
      map (\<lambda>s. (original_station_id s, station_uuid s)) st =
      map (\<lambda>s. (original_station_id s, station_uuid s)) st')"
proof -
  have h: "mset [metro_row_1, metro_row_2] = mset [metro_row_2, metro_row_1]"
    by (simp add: add_mset_commute)
  from surrogate_ids_order_independent [OF h, of example_getrandbits always_raises always_raises] h
  show ?thesis by simp
qed

text \<open>
  C6 as stated fails for the Capital stations: exchanging the two rows of natural id 5
  changes the registry. In one order station 2 is the first id of the shared place and
  the ids 2 and 5 get the first and the second draw; in the other order station 5 is the
  first id of both places, station 2 gets no surrogate id and station 5 gets the first
  draw.
\<close>

theorem capital_stations_order_counterexample:
  "mset shared_place = mset shared_place_exchanged \<and>
   start_mention (shared_place ! 0) = end_mention (shared_place ! 0) \<and>
   start_station_id (shared_place ! 0) = Some 5 \<and>
   start_station_id (shared_place ! 2) = Some 5 \<and>
   generate_capital_stations_dataframe example_getrandbits always_raises example_str_digits
     shared_place =
   Inr [\<lparr>station_uuid = 1000, original_station_id = 2, latitude = Some 38.9000002,
          longitude = Some (- 77.0000002), station_name = Some ''A'', city = ''Washington D.C.'',
          zip_code = None\<rparr>,
        \<lparr>station_uuid = 1001, original_station_id = 5, latitude = Some 38.9000001,
          longitude = Some (- 77.0000001), station_name = Some ''A'', city = ''Washington D.C.'',
          zip_code = None\<rparr>] \<and>
   generate_capital_stations_dataframe example_getrandbits always_raises example_str_digits
     shared_place_exchanged =
   Inr [\<lparr>station_uuid = 1000, original_station_id = 5, latitude = Some 38.9000001,
          longitude = Some (- 77.0000002), station_name = Some ''A'', city = ''Washington D.C.'',
          zip_code = None\<rparr>]"
proof (intro conjI)
  show "mset shared_place = mset shared_place_exchanged"
    by (simp add: shared_place_def shared_place_exchanged_def add_mset_commute)
qed code_simp+

end
